theory Spec2Isabelle
  imports Complex_Main "HOL-Library.Signed_Division"
begin

unbundle bit_operations_syntax

section \<open>The Date value type\<close>

text \<open>
  The package \<^verbatim>\<open>date\<close> has one type, \<^verbatim>\<open>Date\<close>, a struct of three integers.
  Go's \<^verbatim>\<open>int\<close> and \<^verbatim>\<open>time.Month\<close> (an \<^verbatim>\<open>int\<close>) are modelled by \<open>int\<close>: the
  package itself only compares and prints these fields, it never does arithmetic on them.
\<close>

record Date =
  Year :: int
  Month :: int
  Day :: int

text \<open>The zero value \<^verbatim>\<open>Date{}\<close>.\<close>

definition zero_Date :: Date where
  "zero_Date = \<lparr>Year = 0, Month = 0, Day = 0\<rparr>"

subsection \<open>Comparison\<close>

definition After :: "Date \<Rightarrow> Date \<Rightarrow> bool" where
  "After d t =
     (if Year d \<noteq> Year t then Year d > Year t
      else if Month d \<noteq> Month t then Month d > Month t
      else Day d > Day t)"

definition Before :: "Date \<Rightarrow> Date \<Rightarrow> bool" where
  "Before d t = After t d"

definition Equal :: "Date \<Rightarrow> Date \<Rightarrow> bool" where
  "Equal d t = (\<not> After d t \<and> \<not> Before d t)"

section \<open>Formatting: the part of package fmt that \<^verbatim>\<open>String\<close> uses\<close>

text \<open>
  \<^verbatim>\<open>String\<close> calls \<^verbatim>\<open>fmt.Sprintf("%4d-%02d-%02d", d.Year, d.Month, d.Day)\<close>. The verb
  \<^verbatim>\<open>%d\<close> prints an integer in decimal (for a \<^verbatim>\<open>time.Month\<close> too: its \<^verbatim>\<open>String\<close>
  method is only consulted by the verbs that accept a string). A width pads on the left
  with spaces; with the flag \<^verbatim>\<open>0\<close> it pads with zeros instead, after the sign.
\<close>

definition digit_char :: "nat \<Rightarrow> char" where
  "digit_char n = char_of (48 + n)"

fun dec_digits :: "nat \<Rightarrow> string" where
  "dec_digits n = (if n < 10 then [digit_char n] else dec_digits (n div 10) @ [digit_char (n mod 10)])"

declare dec_digits.simps [simp del]

text \<open>
  \<^verbatim>\<open>fmtInteger\<close> for base 10 and no precision: \<open>wid\<close> is the width, \<open>zero\<close> the flag
  \<^verbatim>\<open>0\<close>. With the flag, the digits are padded with zeros to the width (one less for a
  negative number, to leave room for the sign); then the sign is put in front; then
  \<^verbatim>\<open>pad\<close> fills what is left of the width with spaces.
\<close>

definition fmtInteger :: "nat \<Rightarrow> bool \<Rightarrow> int \<Rightarrow> string" where
  "fmtInteger wid zero n =
     (let negative = n < 0;
          prec = (if zero then (if negative then wid - 1 else wid) else 0);
          ds = dec_digits (nat \<bar>n\<bar>);
          buf = replicate (prec - length ds) (CHR ''0'') @ ds;
          buf = (if negative then CHR ''-'' # buf else buf)
      in replicate (wid - length buf) (CHR '' '') @ buf)"

section \<open>Errors\<close>

text \<open>
  The errors the package returns are those of \<^verbatim>\<open>time.Parse\<close> (a \<^verbatim>\<open>*time.ParseError\<close>
  with the layout, the value, the layout element and the value element where parsing
  stopped, and a message) and those it makes itself with \<^verbatim>\<open>fmt.Errorf\<close> (a message).
  \<open>Unmodelled\<close> is not an error of Go: it marks a layout element the model of
  \<^verbatim>\<open>time.Parse\<close> below does not cover.
\<close>

datatype parse_message = NoMessage | ExtraText string | OutOfRange string

datatype error =
  ParseError string string string string parse_message
  | Errorf string
  | Unmodelled string

section \<open>The part of package time that the package uses\<close>

text \<open>
  Package \<^verbatim>\<open>time\<close> is not part of the repository. It is modelled here from its
  documented behaviour and its algorithms, over the mathematical integers: a \<^verbatim>\<open>Time\<close>
  is an instant (seconds since 1970-01-01T00:00:00Z and nanoseconds within the second)
  together with the offset east of UTC of its location at that instant. The package
  represents years within about 292 billion years of year 1; within that range its 64-bit
  arithmetic and the arithmetic below agree. Beyond it Go's arithmetic wraps around and
  the model does not follow it: the theorems of the claims that go through \<open>time_Date\<close>
  are about dates with years of at most four digits.
\<close>

record Time =
  unixSec :: int
  nsec :: int
  zoneOffset :: int

text \<open>The zero value \<^verbatim>\<open>Time{}\<close>: January 1, year 1, 00:00:00 UTC.\<close>

definition zero_Time :: Time where
  "zero_Time = \<lparr>unixSec = - 62135596800, nsec = 0, zoneOffset = 0\<rparr>"

subsection \<open>The calendar\<close>

definition isLeap :: "int \<Rightarrow> bool" where
  "isLeap year = (year mod 4 = 0 \<and> (year mod 100 \<noteq> 0 \<or> year mod 400 = 0))"

text \<open>
  \<^verbatim>\<open>daysBefore[m]\<close> counts the days of a non-leap year before month \<open>m + 1\<close>. Every
  caller indexes it with a month between 0 and 12.
\<close>

definition daysBefore :: "int list" where
  "daysBefore = [0, 31, 59, 90, 120, 151, 181, 212, 243, 273, 304, 334, 365]"

definition daysIn :: "int \<Rightarrow> int \<Rightarrow> int" where
  "daysIn m year =
     (if m = 2 \<and> isLeap year then 29
      else daysBefore ! nat m - daysBefore ! nat (m - 1))"

text \<open>
  \<^verbatim>\<open>norm(hi, lo, base)\<close> brings \<open>lo\<close> into \<open>[0, base)\<close>, carrying into \<open>hi\<close>. Go's
  division truncates; both divisions here are of non-negative numbers.
\<close>

definition norm :: "int \<Rightarrow> int \<Rightarrow> int \<Rightarrow> int \<times> int" where
  "norm hi lo base =
     (let (hi, lo) = (if lo < 0
                      then (let n = (- lo - 1) div base + 1 in (hi - n, lo + n * base))
                      else (hi, lo));
          (hi, lo) = (if lo \<ge> base
                      then (let n = lo div base in (hi + n, lo - n * base))
                      else (hi, lo))
      in (hi, lo))"

text \<open>
  The number of days from January 1 of year 1 to January 1 of \<open>year\<close>, in the proleptic
  Gregorian calendar. (Package \<^verbatim>\<open>time\<close> counts from a year far in the past that is 1
  modulo 400; the origin cancels when the count is turned into Unix seconds.)
\<close>

definition daysSinceEpoch :: "int \<Rightarrow> int" where
  "daysSinceEpoch year =
     365 * (year - 1) + (year - 1) div 4 - (year - 1) div 100 + (year - 1) div 400"

text \<open>The days from January 1 of year 1 to 1970-01-01.\<close>

definition unixEpochDays :: int where
  "unixEpochDays = 719162"

text \<open>
  \<^verbatim>\<open>time.Date(year, month, day, hour, min, sec, nsec, time.UTC)\<close>: the values may be
  outside their usual ranges and are normalised.
\<close>

definition time_Date :: "int \<Rightarrow> int \<Rightarrow> int \<Rightarrow> int \<Rightarrow> int \<Rightarrow> int \<Rightarrow> int \<Rightarrow> Time" where
  "time_Date year month day hour mi sec ns =
     (let (year, m) = norm year (month - 1) 12;
          month = m + 1;
          (sec, ns) = norm sec ns 1000000000;
          (mi, sec) = norm mi sec 60;
          (hour, mi) = norm hour mi 60;
          (day, hour) = norm day hour 24;
          d = daysSinceEpoch year + daysBefore ! nat (month - 1)
              + (if isLeap year \<and> month \<ge> 3 then 1 else 0)
              + (day - 1);
          abs = d * 86400 + (hour * 3600 + mi * 60 + sec)
      in \<lparr>unixSec = abs - unixEpochDays * 86400, nsec = ns, zoneOffset = 0\<rparr>)"

text \<open>
  \<^verbatim>\<open>absDate\<close>: from a day count since January 1 of year 1 to the year and the day
  within the year (from 0), by cutting off the cycles of 400, 100, 4 and 1 years.
\<close>

definition absDate :: "int \<Rightarrow> int \<times> int" where
  "absDate days =
     (let n400 = days div 146097;
          d = days - 146097 * n400;
          n = d div 36524;
          n100 = n - n div 4;
          d = d - 36524 * n100;
          n4 = d div 1461;
          d = d - 1461 * n4;
          n = d div 365;
          n1 = n - n div 4;
          d = d - 365 * n1
      in (400 * n400 + 100 * n100 + 4 * n4 + n1 + 1, d))"

text \<open>
  The month and the day of the month of day \<open>yday\<close> (from 0) of \<open>year\<close>. February 29
  is recognised first and, past it, taken out of the count; the month of a day of a year of
  365 days is then estimated as if every month had 31 days, which is too low by at most
  one month, and adjusted.
\<close>

definition monthByEstimate :: "int \<Rightarrow> int \<times> int" where
  "monthByEstimate day =
     (let month = day div 31;
          mend = daysBefore ! nat (month + 1);
          (month, mbegin) = (if day \<ge> mend then (month + 1, mend)
                             else (month, daysBefore ! nat month))
      in (month + 1, day - mbegin + 1))"

definition monthDay :: "int \<Rightarrow> int \<Rightarrow> int \<times> int" where
  "monthDay year yday =
     (if isLeap year \<and> yday = 31 + 29 - 1 then (2, 29)
      else monthByEstimate (if isLeap year \<and> yday > 31 + 29 - 1 then yday - 1 else yday))"

text \<open>
  \<^verbatim>\<open>t.date()\<close>: the year, month and day of \<open>t\<close> in its own location.
\<close>

definition time_date :: "Time \<Rightarrow> int \<times> int \<times> int" where
  "time_date t =
     (let days = (unixSec t + zoneOffset t) div 86400 + unixEpochDays;
          (year, yday) = absDate days;
          (month, day) = monthDay year yday
      in (year, month, day))"

definition time_Year :: "Time \<Rightarrow> int" where
  "time_Year t = (case time_date t of (year, month, day) \<Rightarrow> year)"

definition time_Month :: "Time \<Rightarrow> int" where
  "time_Month t = (case time_date t of (year, month, day) \<Rightarrow> month)"

definition time_Day :: "Time \<Rightarrow> int" where
  "time_Day t = (case time_date t of (year, month, day) \<Rightarrow> day)"

subsection \<open>Layouts\<close>

text \<open>
  A layout is cut into chunks by \<^verbatim>\<open>nextStdChunk\<close>: literal text up to the next element
  of the reference time, the element, and the rest.
\<close>

datatype std =
  stdLongMonth | stdMonth | stdNumMonth | stdZeroMonth
  | stdLongWeekDay | stdWeekDay
  | stdDay | stdUnderDay | stdZeroDay | stdUnderYearDay | stdZeroYearDay
  | stdHour | stdHour12 | stdZeroHour12 | stdMinute | stdZeroMinute | stdSecond | stdZeroSecond
  | stdLongYear | stdYear
  | stdPM | stdpm
  | stdTZ | stdISO8601TZ | stdISO8601SecondsTZ | stdISO8601ShortTZ | stdISO8601ColonTZ
  | stdISO8601ColonSecondsTZ
  | stdNumTZ | stdNumSecondsTz | stdNumShortTZ | stdNumColonTZ | stdNumColonSecondsTZ
  | stdFracSecond0 nat char | stdFracSecond9 nat char

definition isDigitChar :: "char \<Rightarrow> bool" where
  "isDigitChar c = (48 \<le> (of_char c :: nat) \<and> (of_char c :: nat) \<le> 57)"

text \<open>\<^verbatim>\<open>isDigit(s, i)\<close>: \<open>s[i]\<close> is in range and a decimal digit.\<close>

definition isDigit :: "string \<Rightarrow> nat \<Rightarrow> bool" where
  "isDigit s i = (if length s \<le> i then False else isDigitChar (s ! i))"

definition startsWithLowerCase :: "string \<Rightarrow> bool" where
  "startsWithLowerCase str =
     (case str of [] \<Rightarrow> False
      | c # _ \<Rightarrow> 97 \<le> (of_char c :: nat) \<and> (of_char c :: nat) \<le> 122)"

text \<open>\<open>hasPrefix s p\<close> is \<^verbatim>\<open>len(s) >= len(p) && s[0:len(p)] == p\<close>.\<close>

definition hasPrefix :: "string \<Rightarrow> string \<Rightarrow> bool" where
  "hasPrefix s p = (take (length p) s = p)"

text \<open>
  The body of the loop of \<^verbatim>\<open>nextStdChunk\<close> at one position of the layout: the element
  that starts there, if any, with the text after it. The first component is literal text
  that goes with the prefix (only for \<^verbatim>\<open>_2006\<close>, a literal \<^verbatim>\<open>_\<close> before the year).
\<close>

definition stdChunkAt :: "string \<Rightarrow> (string \<times> std \<times> string) option" where
  "stdChunkAt s =
     (case s of [] \<Rightarrow> None
      | c # cs \<Rightarrow>
       if c = CHR ''J'' then
         (if hasPrefix s ''Jan'' then
            (if hasPrefix s ''January'' then Some ([], stdLongMonth, drop 7 s)
             else if \<not> startsWithLowerCase (drop 3 s) then Some ([], stdMonth, drop 3 s)
             else None)
          else None)
       else if c = CHR ''M'' then
         (if hasPrefix s ''Mon'' then
            (if hasPrefix s ''Monday'' then Some ([], stdLongWeekDay, drop 6 s)
             else if \<not> startsWithLowerCase (drop 3 s) then Some ([], stdWeekDay, drop 3 s)
             else None)
          else if hasPrefix s ''MST'' then Some ([], stdTZ, drop 3 s)
          else None)
       else if c = CHR ''0'' then
         (if hasPrefix s ''01'' then Some ([], stdZeroMonth, drop 2 s)
          else if hasPrefix s ''02'' then Some ([], stdZeroDay, drop 2 s)
          else if hasPrefix s ''03'' then Some ([], stdZeroHour12, drop 2 s)
          else if hasPrefix s ''04'' then Some ([], stdZeroMinute, drop 2 s)
          else if hasPrefix s ''05'' then Some ([], stdZeroSecond, drop 2 s)
          else if hasPrefix s ''06'' then Some ([], stdYear, drop 2 s)
          else if hasPrefix s ''002'' then Some ([], stdZeroYearDay, drop 3 s)
          else None)
       else if c = CHR ''1'' then
         (if hasPrefix s ''15'' then Some ([], stdHour, drop 2 s)
          else Some ([], stdNumMonth, drop 1 s))
       else if c = CHR ''2'' then
         (if hasPrefix s ''2006'' then Some ([], stdLongYear, drop 4 s)
          else Some ([], stdDay, drop 1 s))
       else if c = CHR ''_'' then
         (if hasPrefix s ''_2'' then
            (if hasPrefix s ''_2006'' then Some (''_'', stdLongYear, drop 5 s)
             else Some ([], stdUnderDay, drop 2 s))
          else if hasPrefix s ''__2'' then Some ([], stdUnderYearDay, drop 3 s)
          else None)
       else if c = CHR ''3'' then Some ([], stdHour12, drop 1 s)
       else if c = CHR ''4'' then Some ([], stdMinute, drop 1 s)
       else if c = CHR ''5'' then Some ([], stdSecond, drop 1 s)
       else if c = CHR ''P'' then
         (if hasPrefix s ''PM'' then Some ([], stdPM, drop 2 s) else None)
       else if c = CHR ''p'' then
         (if hasPrefix s ''pm'' then Some ([], stdpm, drop 2 s) else None)
       else if c = CHR ''-'' then
         (if hasPrefix s ''-070000'' then Some ([], stdNumSecondsTz, drop 7 s)
          else if hasPrefix s ''-07:00:00'' then Some ([], stdNumColonSecondsTZ, drop 9 s)
          else if hasPrefix s ''-0700'' then Some ([], stdNumTZ, drop 5 s)
          else if hasPrefix s ''-07:00'' then Some ([], stdNumColonTZ, drop 6 s)
          else if hasPrefix s ''-07'' then Some ([], stdNumShortTZ, drop 3 s)
          else None)
       else if c = CHR ''Z'' then
         (if hasPrefix s ''Z070000'' then Some ([], stdISO8601SecondsTZ, drop 7 s)
          else if hasPrefix s ''Z07:00:00'' then Some ([], stdISO8601ColonSecondsTZ, drop 9 s)
          else if hasPrefix s ''Z0700'' then Some ([], stdISO8601TZ, drop 5 s)
          else if hasPrefix s ''Z07:00'' then Some ([], stdISO8601ColonTZ, drop 6 s)
          else if hasPrefix s ''Z07'' then Some ([], stdISO8601ShortTZ, drop 3 s)
          else None)
       else if c = CHR ''.'' \<or> c = CHR '','' then
         (case cs of [] \<Rightarrow> None
          | ch # _ \<Rightarrow>
            if ch = CHR ''0'' \<or> ch = CHR ''9'' then
              (let run = takeWhile (\<lambda>x. x = ch) cs;
                   rest = dropWhile (\<lambda>x. x = ch) cs
               in if \<not> isDigit rest 0
                  then Some ([], (if ch = CHR ''9'' then stdFracSecond9 else stdFracSecond0)
                                   (length run) c, rest)
                  else None)
            else None)
       else None)"

fun nextStdChunk_from :: "string \<Rightarrow> string \<Rightarrow> string \<times> std option \<times> string" where
  "nextStdChunk_from pre [] = (pre, None, [])"
| "nextStdChunk_from pre (c # cs) =
     (case stdChunkAt (c # cs) of
        Some (lit, st, suffix) \<Rightarrow> (pre @ lit, Some st, suffix)
      | None \<Rightarrow> nextStdChunk_from (pre @ [c]) cs)"

definition nextStdChunk :: "string \<Rightarrow> string \<times> std option \<times> string" where
  "nextStdChunk layout = nextStdChunk_from [] layout"

text \<open>
  Each element that \<^verbatim>\<open>nextStdChunk\<close> finds leaves a rest shorter than the layout, so the
  loop of \<^verbatim>\<open>time.Parse\<close> over the chunks ends.
\<close>

definition chunk_ok :: "string \<Rightarrow> (string \<times> std \<times> string) option \<Rightarrow> bool" where
  "chunk_ok s r =
     (case r of None \<Rightarrow> True | Some (lit, st, suffix) \<Rightarrow> length suffix < length s)"

lemma chunk_ok_if: "chunk_ok s x \<Longrightarrow> chunk_ok s y \<Longrightarrow> chunk_ok s (if b then x else y)"
  by simp

lemma chunk_ok_None: "chunk_ok s None"
  by (simp add: chunk_ok_def)

lemma chunk_ok_drop: "0 < n \<Longrightarrow> chunk_ok (c # cs) (Some (lit, st, drop n (c # cs)))"
  by (auto simp: chunk_ok_def)

lemma chunk_ok_frac:
  "chunk_ok (c # cs)
     (case cs of [] \<Rightarrow> None
      | ch # x \<Rightarrow>
          if ch = CHR ''0'' \<or> ch = CHR ''9'' then
            (let run = takeWhile (\<lambda>x. x = ch) cs;
                 rest = dropWhile (\<lambda>x. x = ch) cs
             in if \<not> isDigit rest 0
                then Some ([], (if ch = CHR ''9'' then stdFracSecond9 else stdFracSecond0)
                                 (length run) c, rest)
                else None)
          else None)"
  by (auto simp: chunk_ok_def Let_def le_imp_less_Suc length_dropWhile_le split: list.splits)

lemma stdChunkAt_ok: "chunk_ok s (stdChunkAt s)"
proof (cases s)
  case Nil
  then show ?thesis by (simp add: stdChunkAt_def chunk_ok_def)
next
  case (Cons c cs)
  show ?thesis
    unfolding stdChunkAt_def Cons list.case
    by (intro chunk_ok_if chunk_ok_None chunk_ok_frac chunk_ok_drop) simp_all
qed

lemma stdChunkAt_shorter:
  "stdChunkAt s = Some (lit, st, suffix) \<Longrightarrow> length suffix < length s"
  using stdChunkAt_ok [of s] by (simp add: chunk_ok_def)

lemma nextStdChunk_from_shorter:
  "nextStdChunk_from pre s = (prefix, Some st, suffix) \<Longrightarrow> length suffix < length s"
proof (induction s arbitrary: pre)
  case Nil
  then show ?case by simp
next
  case (Cons c cs)
  show ?case
  proof (cases "stdChunkAt (c # cs)")
    case None
    with Cons.prems have "nextStdChunk_from (pre @ [c]) cs = (prefix, Some st, suffix)"
      by simp
    from Cons.IH [OF this] show ?thesis by simp
  next
    case (Some r)
    obtain lit st' suf where r: "r = (lit, st', suf)" by (cases r)
    with Some Cons.prems have "suf = suffix" by simp
    with Some r stdChunkAt_shorter [of "c # cs" lit st' suf] show ?thesis by simp
  qed
qed

lemma nextStdChunk_shorter:
  "nextStdChunk layout = (prefix, Some st, suffix) \<Longrightarrow> length suffix < length layout"
  unfolding nextStdChunk_def by (rule nextStdChunk_from_shorter)

subsection \<open>Reading numbers and names\<close>

text \<open>
  The helpers return, as Go's do, the rest of the text together with the value; the
  Boolean component is \<open>True\<close> when Go's \<^verbatim>\<open>err\<close> is \<^verbatim>\<open>nil\<close>.
\<close>

definition digitVal :: "char \<Rightarrow> int" where
  "digitVal c = int (of_char c) - 48"

text \<open>
  \<^verbatim>\<open>getnum(s, fixed)\<close> reads \<open>s[0:1]\<close> or \<open>s[0:2]\<close> (\<open>fixed\<close> forces \<open>s[0:2]\<close>) as a
  decimal number.
\<close>

definition getnum :: "string \<Rightarrow> bool \<Rightarrow> int \<times> string \<times> bool" where
  "getnum s fixed =
     (if \<not> isDigit s 0 then (0, s, False)
      else if \<not> isDigit s 1 then
        (if fixed then (0, s, False) else (digitVal (s ! 0), drop 1 s, True))
      else (digitVal (s ! 0) * 10 + digitVal (s ! 1), drop 2 s, True))"

text \<open>
  \<^verbatim>\<open>leadingInt\<close> consumes the leading digits of \<open>s\<close>; \<open>None\<close> is its overflow error.
\<close>

fun leadingInt_from :: "int \<Rightarrow> string \<Rightarrow> (int \<times> string) option" where
  "leadingInt_from x [] = Some (x, [])"
| "leadingInt_from x (c # cs) =
     (if \<not> isDigitChar c then Some (x, c # cs)
      else if x > 2 ^ 63 div 10 then None
      else (let x = x * 10 + digitVal c
            in if x > 2 ^ 63 then None else leadingInt_from x cs))"

definition leadingInt :: "string \<Rightarrow> (int \<times> string) option" where
  "leadingInt s = leadingInt_from 0 s"

text \<open>
  \<^verbatim>\<open>atoi\<close>: an optional sign and digits, nothing else; \<open>None\<close> is \<^verbatim>\<open>errAtoi\<close>. The
  conversion \<^verbatim>\<open>int(q)\<close> of the unsigned value wraps at \<open>2 ^ 63\<close>.
\<close>

definition atoi :: "string \<Rightarrow> int option" where
  "atoi s =
     (let (neg, s) = (case s of [] \<Rightarrow> (False, s)
                      | c # cs \<Rightarrow> if c = CHR ''-'' \<or> c = CHR ''+'' then (c = CHR ''-'', cs)
                                  else (False, s))
      in case leadingInt s of
           None \<Rightarrow> None
         | Some (q, rem) \<Rightarrow>
             if rem \<noteq> [] then None
             else (let x = (if q = 2 ^ 63 then - (2 ^ 63) else q)
                   in Some (if neg then - x else x)))"

text \<open>
  \<^verbatim>\<open>match(s1, s2)\<close>: equal up to the case of letters, for texts of the same length.
\<close>

fun match :: "string \<Rightarrow> string \<Rightarrow> bool" where
  "match (c1 # s1) (c2 # s2) =
     (if c1 \<noteq> c2 then
        (let l1 = (of_char c1 :: nat) OR 32; l2 = (of_char c2 :: nat) OR 32
         in if l1 \<noteq> l2 \<or> l1 < 97 \<or> l1 > 122 then False else match s1 s2)
      else match s1 s2)"
| "match _ _ = True"

text \<open>
  \<^verbatim>\<open>lookup(tab, val)\<close>: the index of the first name of \<open>tab\<close> that \<open>val\<close> starts with,
  and the rest of \<open>val\<close>; index \<open>-1\<close> and an error when there is none.
\<close>

fun lookup_from :: "int \<Rightarrow> string list \<Rightarrow> string \<Rightarrow> int \<times> string \<times> bool" where
  "lookup_from i [] val = (- 1, val, False)"
| "lookup_from i (v # tab) val =
     (if length val \<ge> length v \<and> match (take (length v) val) v
      then (i, drop (length v) val, True)
      else lookup_from (i + 1) tab val)"

definition lookup :: "string list \<Rightarrow> string \<Rightarrow> int \<times> string \<times> bool" where
  "lookup tab val = lookup_from 0 tab val"

definition shortMonthNames :: "string list" where
  "shortMonthNames = [''Jan'', ''Feb'', ''Mar'', ''Apr'', ''May'', ''Jun'',
                      ''Jul'', ''Aug'', ''Sep'', ''Oct'', ''Nov'', ''Dec'']"

definition longMonthNames :: "string list" where
  "longMonthNames = [''January'', ''February'', ''March'', ''April'', ''May'', ''June'', ''July'',
                     ''August'', ''September'', ''October'', ''November'', ''December'']"

definition cutspace :: "string \<Rightarrow> string" where
  "cutspace s = dropWhile (\<lambda>c. c = CHR '' '') s"

text \<open>
  \<^verbatim>\<open>skip(value, prefix)\<close> removes the literal text \<open>prefix\<close> from \<open>value\<close>, a run of
  spaces of the prefix standing for any run of spaces of the value.
\<close>

function skip :: "string \<Rightarrow> string \<Rightarrow> string \<times> bool" where
  "skip value [] = (value, True)"
| "skip value (p # ps) =
     (if p = CHR '' '' then
        (if value \<noteq> [] \<and> hd value \<noteq> CHR '' '' then (value, False)
         else skip (cutspace value) (cutspace (p # ps)))
      else if value = [] \<or> hd value \<noteq> p then (value, False)
      else skip (tl value) ps)"
  by pat_completeness auto
termination
  by (relation "measure (\<lambda>(value, prefix). length prefix)")
    (auto simp: cutspace_def le_imp_less_Suc length_dropWhile_le)

subsection \<open>Parsing a text against a layout\<close>

text \<open>
  One element of the layout, read from the front of \<open>value\<close>: the body of the
  \<^verbatim>\<open>switch\<close> in the loop of \<^verbatim>\<open>time.Parse\<close>. The result holds the year, month and
  day so far, the rest of the value, the value before the element (\<^verbatim>\<open>hold\<close>), whether
  \<^verbatim>\<open>err\<close> is \<^verbatim>\<open>nil\<close>, and \<^verbatim>\<open>rangeErrString\<close>. The elements of the date are
  modelled, except the day of the year; for the others (weekday, time of day, zone) the
  result is \<open>None\<close>.
\<close>

definition parseStd ::
  "std \<Rightarrow> string \<Rightarrow> int \<Rightarrow> int \<Rightarrow> int \<Rightarrow>
   (int \<times> int \<times> int \<times> string \<times> string \<times> bool \<times> string) option" where
  "parseStd st value year month day =
     (let hold = value in
      case st of
        stdYear \<Rightarrow>
          if length value < 2 then Some (year, month, day, value, hold, False, [])
          else (case atoi (take 2 value) of
                  None \<Rightarrow> Some (0, month, day, drop 2 value, value, False, [])
                | Some y \<Rightarrow>
                    Some (if y \<ge> 69 then y + 1900 else y + 2000, month, day, drop 2 value,
                          value, True, []))
      | stdLongYear \<Rightarrow>
          if length value < 4 \<or> \<not> isDigit value 0
          then Some (year, month, day, value, hold, False, [])
          else (case atoi (take 4 value) of
                  None \<Rightarrow> Some (0, month, day, drop 4 value, value, False, [])
                | Some y \<Rightarrow> Some (y, month, day, drop 4 value, value, True, []))
      | stdMonth \<Rightarrow>
          (case lookup shortMonthNames value of
             (i, value, ok) \<Rightarrow> Some (year, i + 1, day, value, hold, ok, []))
      | stdLongMonth \<Rightarrow>
          (case lookup longMonthNames value of
             (i, value, ok) \<Rightarrow> Some (year, i + 1, day, value, hold, ok, []))
      | stdNumMonth \<Rightarrow>
          (case getnum value False of
             (m, value, ok) \<Rightarrow>
               Some (year, m, day, value, hold, ok,
                     if ok \<and> (m \<le> 0 \<or> 12 < m) then ''month'' else []))
      | stdZeroMonth \<Rightarrow>
          (case getnum value True of
             (m, value, ok) \<Rightarrow>
               Some (year, m, day, value, hold, ok,
                     if ok \<and> (m \<le> 0 \<or> 12 < m) then ''month'' else []))
      | stdDay \<Rightarrow>
          (case getnum value False of
             (d, value, ok) \<Rightarrow> Some (year, month, d, value, hold, ok, []))
      | stdUnderDay \<Rightarrow>
          (let value = (if value \<noteq> [] \<and> hd value = CHR '' '' then tl value else value)
           in case getnum value False of
                (d, value, ok) \<Rightarrow> Some (year, month, d, value, hold, ok, []))
      | stdZeroDay \<Rightarrow>
          (case getnum value True of
             (d, value, ok) \<Rightarrow> Some (year, month, d, value, hold, ok, []))
      | _ \<Rightarrow> None)"

text \<open>
  The loop of \<^verbatim>\<open>time.Parse\<close>: each iteration skips the literal text before the next
  element and reads the element. \<open>alayout\<close> and \<open>avalue\<close> are the original arguments,
  kept for the error.
\<close>

function parse_loop ::
  "string \<Rightarrow> string \<Rightarrow> string \<Rightarrow> string \<Rightarrow> int \<Rightarrow> int \<Rightarrow> int \<Rightarrow>
   error + (int \<times> int \<times> int \<times> string)" where
  "parse_loop alayout avalue layout value year month day =
     (case nextStdChunk layout of
        (prefix, st, suffix) \<Rightarrow>
          (let stdstr = drop (length prefix) (take (length layout - length suffix) layout)
           in case skip value prefix of
                (value, ok) \<Rightarrow>
                  if \<not> ok then Inl (ParseError alayout avalue prefix value NoMessage)
                  else
                    (case st of
                       None \<Rightarrow>
                         if value \<noteq> []
                         then Inl (ParseError alayout avalue [] value (ExtraText value))
                         else Inr (year, month, day, value)
                     | Some sd \<Rightarrow>
                         (case parseStd sd value year month day of
                            None \<Rightarrow> Inl (Unmodelled stdstr)
                          | Some (year, month, day, value, hold, ok, rangeErrString) \<Rightarrow>
                              if rangeErrString \<noteq> []
                              then Inl (ParseError alayout avalue stdstr value
                                          (OutOfRange rangeErrString))
                              else if \<not> ok
                              then Inl (ParseError alayout avalue stdstr hold NoMessage)
                              else parse_loop alayout avalue suffix value year month day))))"
  by pat_completeness auto
termination
  by (relation "measure (\<lambda>(alayout, avalue, layout, value, year, month, day). length layout)")
    (auto dest: nextStdChunk_shorter [OF sym])

declare parse_loop.simps [simp del]

text \<open>
  \<^verbatim>\<open>time.Parse(layout, value)\<close>. Elements absent from the layout are zero or, where
  zero is impossible, one; the day is validated against the month and the year; the
  result is in UTC.
\<close>

definition time_Parse :: "string \<Rightarrow> string \<Rightarrow> error + Time" where
  "time_Parse layout value =
     (case parse_loop layout value layout value 0 (- 1) (- 1) of
        Inl e \<Rightarrow> Inl e
      | Inr (year, month, day, rest) \<Rightarrow>
          (let month = (if month < 0 then 1 else month);
               day = (if day < 0 then 1 else day)
           in if day < 1 \<or> day > daysIn month year
              then Inl (ParseError layout value [] rest (OutOfRange ''day''))
              else Inr (time_Date year month day 0 0 0 0)))"

subsection \<open>Durations\<close>

text \<open>
  A \<^verbatim>\<open>Duration\<close> is a 64-bit count of nanoseconds. \<^verbatim>\<open>t.Sub(u)\<close> is the duration
  \<open>t - u\<close>, or the largest (smallest) duration when \<open>t - u\<close> does not fit.
\<close>

definition minDuration :: int where
  "minDuration = - (2 ^ 63)"

definition maxDuration :: int where
  "maxDuration = 2 ^ 63 - 1"

definition Hour :: int where
  "Hour = 60 * 60 * 1000000000"

definition time_Before :: "Time \<Rightarrow> Time \<Rightarrow> bool" where
  "time_Before t u = (unixSec t < unixSec u \<or> (unixSec t = unixSec u \<and> nsec t < nsec u))"

definition time_Sub :: "Time \<Rightarrow> Time \<Rightarrow> int" where
  "time_Sub t u =
     (let d = (unixSec t - unixSec u) * 1000000000 + (nsec t - nsec u)
      in if minDuration \<le> d \<and> d \<le> maxDuration then d
         else if time_Before t u then minDuration
         else maxDuration)"

text \<open>
  \<^verbatim>\<open>d.Hours()\<close> is a \<^verbatim>\<open>float64\<close>, modelled by a rational number: the whole hours (Go's
  division truncates, as \<open>sdiv\<close> and \<open>smod\<close> do) plus the fraction. In \<^verbatim>\<open>Date.Sub\<close>
  the duration is either a whole number of days below \<open>2 ^ 53\<close> hours, on which the
  floating-point operations are exact, or one of the two saturation values, whose quotient
  by 24 hours lies near \<open>106751.99\<close> in absolute value, far from a whole number: the
  rounding of \<^verbatim>\<open>float64\<close> does not change what the conversion to \<^verbatim>\<open>int\<close> gives.
\<close>

type_synonym float64 = rat

definition Hours :: "int \<Rightarrow> float64" where
  "Hours d =
     (let hour = d sdiv Hour; nsec = d smod Hour
      in of_int hour + of_int nsec / (60 * 60 * 1000000000))"

text \<open>The conversion \<^verbatim>\<open>int(x)\<close> of a \<^verbatim>\<open>float64\<close> discards the fraction.\<close>

definition int_of_float64 :: "float64 \<Rightarrow> int" where
  "int_of_float64 x = (if x < 0 then \<lceil>x\<rceil> else \<lfloor>x\<rfloor>)"

section \<open>Text and database output\<close>

text \<open>
  An \<^verbatim>\<open>interface{}\<close> value as \<^verbatim>\<open>Scan\<close> and \<^verbatim>\<open>Value\<close> see it: a \<^verbatim>\<open>time.Time\<close>, a
  \<^verbatim>\<open>[]byte\<close>, a \<^verbatim>\<open>string\<close>, or a value of any other dynamic type, of which the code
  only uses the type's name (what \<^verbatim>\<open>%T\<close> prints).
\<close>

datatype iface =
  TimeValue Time
  | BytesValue string
  | StringValue string
  | OtherValue string

definition String :: "Date \<Rightarrow> string" where
  "String d =
     fmtInteger 4 False (Year d) @ ''-'' @ fmtInteger 2 True (Month d) @ ''-'' @
     fmtInteger 2 True (Day d)"

definition MarshalText :: "Date \<Rightarrow> string \<times> error option" where
  "MarshalText d = (let s = String d; b = [] in (b @ s, None))"

definition Value :: "Date \<Rightarrow> iface \<times> error option" where
  "Value d = (StringValue (String d), None)"

section \<open>Construction, parsing and scanning\<close>

text \<open>
  The functions below take the time parser as the argument \<open>timeParse\<close>; the package
  calls them with \<^verbatim>\<open>time.Parse\<close>, modelled by \<open>time_Parse\<close>.
\<close>

type_synonym time_parser = "string \<Rightarrow> string \<Rightarrow> error + Time"

definition Of :: "Time \<Rightarrow> Date" where
  "Of t = \<lparr>Year = time_Year t, Month = time_Month t, Day = time_Day t\<rparr>"

text \<open>\<^verbatim>\<open>Now\<close> reads the clock: \<open>n\<close> is what \<^verbatim>\<open>time.Now()\<close> returns.\<close>

definition Now :: "Time \<Rightarrow> Date" where
  "Now n = Of n"

definition Parse :: "time_parser \<Rightarrow> string \<Rightarrow> string \<Rightarrow> Date \<times> error option" where
  "Parse timeParse layout d =
     (case timeParse layout d of
        Inl err \<Rightarrow> (zero_Date, Some err)
      | Inr t \<Rightarrow> (Of t, None))"

definition layouts :: "string list" where
  "layouts = [''2006-01-02'', ''2006/01/02'', ''02 Jan 2006'']"

definition quoted :: "string \<Rightarrow> string" where
  "quoted s = CHR 0x22 # s @ [CHR 0x22]"

definition only_supported :: string where
  "only_supported =
     ''. Only '' @ quoted ''2006-01-02'' @ '', '' @ quoted ''2006/01/02'' @ '' and '' @
     quoted ''02 Jan 2006'' @ '' are supported''"

subsection \<open>\<^verbatim>\<open>UnmarshalText\<close> and \<^verbatim>\<open>Scan\<close> as in \<^verbatim>\<open>src/unnamed/part_000\<close>\<close>

text \<open>
  The receiver \<open>d\<close> is passed in and returned. The loop assigns the result of \<^verbatim>\<open>Parse\<close>
  to the receiver at each layout, and returns at the first layout that parses; the
  Boolean tells whether it returned from inside the loop.
\<close>

fun UnmarshalText_part_000_loop ::
  "time_parser \<Rightarrow> string list \<Rightarrow> Date \<Rightarrow> string \<Rightarrow> Date \<times> bool" where
  "UnmarshalText_part_000_loop timeParse [] d b = (d, False)"
| "UnmarshalText_part_000_loop timeParse (layout # rest) d b =
     (case Parse timeParse layout b of
        (d, None) \<Rightarrow> (d, True)
      | (d, Some err) \<Rightarrow> UnmarshalText_part_000_loop timeParse rest d b)"

definition UnmarshalText_part_000 ::
  "time_parser \<Rightarrow> Date \<Rightarrow> string \<Rightarrow> Date \<times> error option" where
  "UnmarshalText_part_000 timeParse d b =
     (case UnmarshalText_part_000_loop timeParse layouts d b of
        (d, True) \<Rightarrow> (d, None)
      | (d, False) \<Rightarrow>
          (d, Some (Errorf (''date: Unsupported format '' @ b @ only_supported))))"

definition Scan_part_000 :: "time_parser \<Rightarrow> Date \<Rightarrow> iface \<Rightarrow> Date \<times> error option" where
  "Scan_part_000 timeParse d v =
     (case v of
        TimeValue s \<Rightarrow> (Of s, None)
      | BytesValue s \<Rightarrow> UnmarshalText_part_000 timeParse d s
      | StringValue s \<Rightarrow> UnmarshalText_part_000 timeParse d s
      | OtherValue T \<Rightarrow> (d, Some (Errorf (''date: Unsupport scanning type '' @ T))))"

subsection \<open>\<^verbatim>\<open>UnmarshalText\<close> and \<^verbatim>\<open>Scan\<close> as in \<^verbatim>\<open>src/date.go\<close>\<close>

text \<open>
  Here the loop keeps the parsed time and the error in local variables (on an error
  \<^verbatim>\<open>time.Parse\<close> returns the zero \<^verbatim>\<open>Time\<close>), and the receiver is assigned after the
  loop, when the error is \<^verbatim>\<open>nil\<close>.
\<close>

fun UnmarshalText_date_go_loop ::
  "time_parser \<Rightarrow> string list \<Rightarrow> string \<Rightarrow> Time \<times> error option \<Rightarrow> Time \<times> error option" where
  "UnmarshalText_date_go_loop timeParse [] b (t, err) = (t, err)"
| "UnmarshalText_date_go_loop timeParse (f # rest) b (t, err) =
     (case timeParse f b of
        Inr t \<Rightarrow> (t, None)
      | Inl err \<Rightarrow> UnmarshalText_date_go_loop timeParse rest b (zero_Time, Some err))"

definition UnmarshalText_date_go ::
  "time_parser \<Rightarrow> Date \<Rightarrow> string \<Rightarrow> Date \<times> error option" where
  "UnmarshalText_date_go timeParse d b =
     (case UnmarshalText_date_go_loop timeParse layouts b (zero_Time, None) of
        (t, Some err) \<Rightarrow>
          (d, Some (Errorf (''Date.UnmarshalText: Unsupported format '' @ b @ only_supported)))
      | (t, None) \<Rightarrow> (Of t, None))"

text \<open>
  In this \<^verbatim>\<open>Scan\<close> a \<^verbatim>\<open>string\<close> has no case of its own: it takes the default branch,
  and \<^verbatim>\<open>%T\<close> prints its type as \<^verbatim>\<open>string\<close>.
\<close>

definition Scan_date_go :: "time_parser \<Rightarrow> Date \<Rightarrow> iface \<Rightarrow> Date \<times> error option" where
  "Scan_date_go timeParse d v =
     (case v of
        TimeValue s \<Rightarrow> (\<lparr>Year = time_Year s, Month = time_Month s, Day = time_Day s\<rparr>, None)
      | BytesValue s \<Rightarrow>
          (case timeParse ''2006-01-02'' s of
             Inl err \<Rightarrow> (d, Some err)
           | Inr t \<Rightarrow> (\<lparr>Year = time_Year t, Month = time_Month t, Day = time_Day t\<rparr>, None))
      | StringValue s \<Rightarrow> (d, Some (Errorf (''date: Unsupport scanning type '' @ ''string'')))
      | OtherValue T \<Rightarrow> (d, Some (Errorf (''date: Unsupport scanning type '' @ T))))"

subsection \<open>Difference\<close>

text \<open>
  The doc comment of \<^verbatim>\<open>Sub\<close>: ``Sub returns the days d - t''. Only
  \<^verbatim>\<open>src/unnamed/part_000\<close> has this function.
\<close>

definition Sub :: "Date \<Rightarrow> Date \<Rightarrow> int" where
  "Sub d t =
     (let dt = time_Date (Year d) (Month d) (Day d) 0 0 0 0;
          tt = time_Date (Year t) (Month t) (Day t) 0 0 0 0
      in int_of_float64 (Hours (time_Sub dt tt) / 24))"

section \<open>A calendar notion used in the statements\<close>

text \<open>
  This definition is not a function of the package. \<open>valid_date\<close> says that a Date is a
  day of the calendar; it states which Dates the round trip through text holds for.
\<close>

definition valid_date :: "Date \<Rightarrow> bool" where
  "valid_date d =
     (1 \<le> Month d \<and> Month d \<le> 12 \<and> 1 \<le> Day d \<and> Day d \<le> daysIn (Month d) (Year d))"

section \<open>Properties of the comparisons\<close>

lemma After_lex:
  "After d t \<longleftrightarrow>
     Year d > Year t \<or> (Year d = Year t \<and> (Month d > Month t \<or> (Month d = Month t \<and> Day d > Day t)))"
  by (auto simp: After_def)

lemma Equal_fields:
  "Equal d t \<longleftrightarrow> Year d = Year t \<and> Month d = Month t \<and> Day d = Day t"
  by (auto simp: Equal_def Before_def After_def)

text \<open>
  Claim C7. \<^verbatim>\<open>d.After(t)\<close> holds exactly when the tuple (year, month, day) of \<open>d\<close> is
  strictly greater than that of \<open>t\<close> in the lexicographic order (year first, month on equal
  years, day on equal months); \<^verbatim>\<open>d.Before(t)\<close> is \<^verbatim>\<open>t.After(d)\<close>, hence
  \<^verbatim>\<open>a.After(b) == b.Before(a)\<close>.
\<close>

theorem After_Before_lexicographic:
  "(After d t \<longleftrightarrow>
      Year d > Year t \<or>
      (Year d = Year t \<and> (Month d > Month t \<or> (Month d = Month t \<and> Day d > Day t))))
   \<and> Before d t = After t d
   \<and> After a b = Before b a"
  by (simp add: After_lex Before_def)

text \<open>
  Claim C8. \<^verbatim>\<open>d.Equal(t)\<close> holds exactly when neither \<^verbatim>\<open>d.After(t)\<close> nor
  \<^verbatim>\<open>d.Before(t)\<close> does, which is the same as the three fields being equal; \<^verbatim>\<open>Equal\<close>
  is reflexive, symmetric and transitive, and \<^verbatim>\<open>After\<close> is transitive.
\<close>

theorem Equal_equivalence_After_transitive:
  "(Equal d t \<longleftrightarrow> \<not> After d t \<and> \<not> Before d t)
   \<and> (Equal d t \<longleftrightarrow> Year d = Year t \<and> Month d = Month t \<and> Day d = Day t)
   \<and> Equal d d
   \<and> (Equal d t \<longrightarrow> Equal t d)
   \<and> (Equal d t \<and> Equal t u \<longrightarrow> Equal d u)
   \<and> (After a b \<and> After b c \<longrightarrow> After a c)"
proof -
  have trans_After: "After a b \<and> After b c \<longrightarrow> After a c"
    unfolding After_lex by linarith
  have def_Equal: "Equal d t \<longleftrightarrow> \<not> After d t \<and> \<not> Before d t"
    by (simp add: Equal_def)
  have equiv_Equal: "Equal d d \<and> (Equal d t \<longrightarrow> Equal t d) \<and> (Equal d t \<and> Equal t u \<longrightarrow> Equal d u)"
    by (simp add: Equal_fields)
  show ?thesis
    using trans_After def_Equal equiv_Equal Equal_fields [of d t] by blast
qed

theorem Equal_equivalence_After_transitive_witness:
  "Equal \<lparr>Year = 2001, Month = 3, Day = 5\<rparr> \<lparr>Year = 2001, Month = 3, Day = 5\<rparr>
   \<and> After \<lparr>Year = 2009, Month = 11, Day = 15\<rparr> \<lparr>Year = 2001, Month = 3, Day = 5\<rparr>
   \<and> After \<lparr>Year = 2001, Month = 3, Day = 5\<rparr> \<lparr>Year = 2001, Month = 3, Day = 4\<rparr>
   \<and> After \<lparr>Year = 2009, Month = 11, Day = 15\<rparr> \<lparr>Year = 2001, Month = 3, Day = 4\<rparr>"
  using Equal_equivalence_After_transitive
    [where d = "\<lparr>Year = 2001, Month = 3, Day = 5\<rparr>" and t = "\<lparr>Year = 2001, Month = 3, Day = 5\<rparr>"
       and u = "\<lparr>Year = 2001, Month = 3, Day = 5\<rparr>"
       and a = "\<lparr>Year = 2009, Month = 11, Day = 15\<rparr>" and b = "\<lparr>Year = 2001, Month = 3, Day = 5\<rparr>"
       and c = "\<lparr>Year = 2001, Month = 3, Day = 4\<rparr>"]
  by (simp add: After_def Before_def)

section \<open>Calendar arithmetic\<close>

text \<open>
  The day count, from January 1 of year 1, that \<open>time_Date\<close> computes for a date
  (after normalising the month): a name for it, for the proofs.
\<close>

definition dayNumber :: "int \<Rightarrow> int \<Rightarrow> int \<Rightarrow> int" where
  "dayNumber year month day =
     (case norm year (month - 1) 12 of
        (year, m) \<Rightarrow>
          daysSinceEpoch year + daysBefore ! nat m
          + (if isLeap year \<and> m + 1 \<ge> 3 then 1 else 0) + (day - 1))"

lemma norm_zero: "0 < b \<Longrightarrow> norm hi 0 b = (hi, 0)"
  by (simp add: norm_def)

lemma norm_in_range: "0 \<le> lo \<Longrightarrow> lo < b \<Longrightarrow> norm hi lo b = (hi, lo)"
  by (simp add: norm_def)

lemma time_Date_midnight:
  "time_Date y m d 0 0 0 0 =
     \<lparr>unixSec = (dayNumber y m d - unixEpochDays) * 86400, nsec = 0, zoneOffset = 0\<rparr>"
  by (simp add: time_Date_def dayNumber_def norm_zero Let_def split: prod.splits) 

lemma month_cases:
  "1 \<le> m \<Longrightarrow> m \<le> 12 \<Longrightarrow>
   m = 1 \<or> m = 2 \<or> m = 3 \<or> m = 4 \<or> m = 5 \<or> m = 6 \<or> m = 7 \<or> m = 8 \<or> m = 9 \<or> m = 10 \<or>
   m = 11 \<or> m = (12::int)"
  by arith

lemma dayNumber_valid_month:
  "1 \<le> m \<Longrightarrow> m \<le> 12 \<Longrightarrow>
   dayNumber y m d =
     daysSinceEpoch y + daysBefore ! nat (m - 1) + (if isLeap y \<and> m \<ge> 3 then 1 else 0) + (d - 1)"
  by (simp add: dayNumber_def norm_in_range)

lemma absDate_cycles:
  assumes b: "0 \<le> b" "b \<le> 3" and c: "0 \<le> c" "c \<le> 24" and e: "0 \<le> e" "e \<le> 3"
    and k: "0 \<le> k" "k < 365 + (if e = 3 \<and> (c \<noteq> 24 \<or> b = 3) then 1 else 0)"
  shows "absDate (146097 * a + 36524 * b + 1461 * c + 365 * e + k) =
         (400 * a + 100 * b + 4 * c + e + 1, k)"
proof -
  define R3 where "R3 = 365 * e + k"
  define R2 where "R2 = 1461 * c + R3"
  define R where "R = 36524 * b + R2"
  define D where "D = 146097 * a + R"
  from k have k365: "k \<le> 365" and kleap: "k = 365 \<Longrightarrow> e = 3 \<and> (c \<noteq> 24 \<or> b = 3)"
    by (simp_all split: if_splits)
  have R3: "0 \<le> R3" "R3 < 1461"
    using e k k365 kleap by (auto simp: R3_def)
  have R2: "0 \<le> R2" "R2 \<le> 36524"
    using c R3 by (simp_all add: R2_def)
  have R2_top: "b = 3" if top: "R2 = 36524"
  proof -
    from top c R3 have "c = 24" by (simp add: R2_def)
    with top have "R3 = 1460" by (simp add: R2_def)
    with e k365 have "k = 365" by (simp add: R3_def)
    with kleap \<open>c = 24\<close> show ?thesis by simp
  qed
  have R: "0 \<le> R" "R < 146097"
    using b R2 R2_top by (auto simp: R_def)
  have f1: "D div 146097 = a"
    using R by (intro int_div_pos_eq [where r = R]) (simp_all add: D_def)
  have f2: "D - 146097 * a = R"
    by (simp add: D_def)
  have f3: "R div 36524 - R div 36524 div 4 = b"
  proof (cases "R2 = 36524")
    case True
    with R2_top have "R = 36524 * 4" by (simp add: R_def)
    then show ?thesis using True R2_top by simp
  next
    case False
    with R2 have "R div 36524 = b"
      by (intro int_div_pos_eq [where r = R2]) (simp_all add: R_def)
    then show ?thesis using b by simp
  qed
  have f4: "R - 36524 * b = R2"
    by (simp add: R_def)
  have f5: "R2 div 1461 = c"
    using R3 by (intro int_div_pos_eq [where r = R3]) (simp_all add: R2_def)
  have f6: "R2 - 1461 * c = R3"
    by (simp add: R2_def)
  have f7: "R3 div 365 - R3 div 365 div 4 = e"
  proof (cases "k = 365")
    case True
    with kleap have "R3 = 365 * 4" by (simp add: R3_def)
    then show ?thesis using True kleap by simp
  next
    case False
    with k k365 have "R3 div 365 = e"
      by (intro int_div_pos_eq [where r = k]) (simp_all add: R3_def)
    then show ?thesis using e by simp
  qed
  have f8: "R3 - 365 * e = k"
    by (simp add: R3_def)
  have "absDate D = (400 * a + 100 * b + 4 * c + e + 1, k)"
    unfolding absDate_def Let_def by (simp only: f1 f2 f3 f4 f5 f6 f7 f8)
  moreover have "146097 * a + 36524 * b + 1461 * c + 365 * e + k = D"
    by (simp add: D_def R_def R2_def R3_def)
  ultimately show ?thesis by (simp only:)
qed


lemma mod_zero_iff_top:
  fixes n q r :: int
  assumes "0 \<le> r" "r < n"
  shows "(n * q + (r + 1)) mod n = 0 \<longleftrightarrow> r + 1 = n"
proof (cases "r + 1 = n")
  case True
  then have "n * q + (r + 1) = n * (q + 1)" by (simp add: algebra_simps)
  then have "(n * q + (r + 1)) mod n = 0" by (simp only: mod_mult_self1_is_0)
  with True show ?thesis by simp
next
  case False
  with assms have "0 \<le> r + 1" "r + 1 < n" by simp_all
  then have "(n * q + (r + 1)) mod n = r + 1"
    by (intro int_mod_pos_eq [where q = q]) simp_all
  with False assms show ?thesis by simp
qed

lemma year_cycles:
  fixes y :: int
  obtains a b c e where
    "y = 400 * a + 100 * b + 4 * c + e + 1"
    "0 \<le> b" "b \<le> 3" "0 \<le> c" "c \<le> 24" "0 \<le> e" "e \<le> 3"
    "daysSinceEpoch y = 146097 * a + 36524 * b + 1461 * c + 365 * e"
    "isLeap y \<longleftrightarrow> e = 3 \<and> (c \<noteq> 24 \<or> b = 3)"
proof -
  define z where "z = y - 1"
  define a where "a = z div 400"
  define r where "r = z mod 400"
  define b where "b = r div 100"
  define r' where "r' = r mod 100"
  define c where "c = r' div 4"
  define e where "e = r' mod 4"
  have z: "z = 400 * a + r" and r: "0 \<le> r" "r < 400"
    unfolding a_def r_def by (simp_all only: mult_div_mod_eq pos_mod_sign pos_mod_bound
        zero_less_numeral)
  have r_eq: "r = 100 * b + r'" and r': "0 \<le> r'" "r' < 100"
    unfolding b_def r'_def by (simp_all only: mult_div_mod_eq pos_mod_sign pos_mod_bound
        zero_less_numeral)
  have r'_eq: "r' = 4 * c + e" and e: "0 \<le> e" "e < 4"
    unfolding c_def e_def by (simp_all only: mult_div_mod_eq pos_mod_sign pos_mod_bound
        zero_less_numeral)
  from r r_eq r' have b: "0 \<le> b" "b \<le> 3" by linarith+
  from r' r'_eq e have c: "0 \<le> c" "c \<le> 24" by linarith+
  have z_eq: "z = 400 * a + 100 * b + 4 * c + e"
    using z r_eq r'_eq by linarith
  have d4: "z div 4 = 100 * a + 25 * b + c"
    using e z_eq by (intro int_div_pos_eq [where r = e]) simp_all
  have d100: "z div 100 = 4 * a + b"
    using r' z r_eq by (intro int_div_pos_eq [where r = r']) simp_all
  have d400: "z div 400 = a"
    by (simp only: a_def)
  have days: "daysSinceEpoch y = 146097 * a + 36524 * b + 1461 * c + 365 * e"
    unfolding daysSinceEpoch_def z_def [symmetric] d4 d100 d400
    using z_eq by linarith
  have y4: "y = 4 * (100 * a + 25 * b + c) + (e + 1)"
    and y100: "y = 100 * (4 * a + b) + (r' + 1)"
    and y400: "y = 400 * a + (r + 1)"
    using z_eq z r_eq r'_eq by (simp_all add: z_def)
  have m4: "y mod 4 = 0 \<longleftrightarrow> e = 3"
    using mod_zero_iff_top [of e 4 "100 * a + 25 * b + c"] e
    unfolding y4 [symmetric] by linarith
  have m100: "y mod 100 = 0 \<longleftrightarrow> c = 24 \<and> e = 3"
    using mod_zero_iff_top [of r' 100 "4 * a + b"] r' r'_eq e c
    unfolding y100 [symmetric] by linarith
  have m400: "y mod 400 = 0 \<longleftrightarrow> b = 3 \<and> c = 24 \<and> e = 3"
    using mod_zero_iff_top [of r 400 a] r r_eq r' r'_eq e c b
    unfolding y400 [symmetric] by linarith
  have leap: "isLeap y \<longleftrightarrow> e = 3 \<and> (c \<noteq> 24 \<or> b = 3)"
    unfolding isLeap_def m4 m100 m400 by blast
  from e have e3: "e \<le> 3" by simp
  have y_eq: "y = 400 * a + 100 * b + 4 * c + e + 1"
    using z_eq by (simp add: z_def)
  show thesis
    by (rule that [OF y_eq b c e(1) e3 days leap])
qed

lemma absDate_daysSinceEpoch:
  assumes "0 \<le> k" "k < 365 + (if isLeap y then 1 else 0)"
  shows "absDate (daysSinceEpoch y + k) = (y, k)"
proof -
  obtain a b c e where *:
    "y = 400 * a + 100 * b + 4 * c + e + 1"
    "0 \<le> b" "b \<le> 3" "0 \<le> c" "c \<le> 24" "0 \<le> e" "e \<le> 3"
    "daysSinceEpoch y = 146097 * a + 36524 * b + 1461 * c + 365 * e"
    "isLeap y \<longleftrightarrow> e = 3 \<and> (c \<noteq> 24 \<or> b = 3)"
    by (rule year_cycles)
  from assms(2) *(9) have "k < 365 + (if e = 3 \<and> (c \<noteq> 24 \<or> b = 3) then 1 else 0)"
    by (simp only:)
  from absDate_cycles [OF *(2-7) assms(1) this, of a]
  have "absDate (daysSinceEpoch y + k) = (400 * a + 100 * b + 4 * c + e + 1, k)"
    by (simp only: *(8))
  then show ?thesis
    by (simp only: *(1) [symmetric])
qed


lemma monthDay_alt:
  "monthDay year yday =
     (if isLeap year \<and> yday = 59 then (2, 29)
      else monthByEstimate (if isLeap year \<and> yday > 59 then yday - 1 else yday))"
  by (simp add: monthDay_def)

lemma quotient_cases:
  "0 \<le> q \<Longrightarrow> q \<le> 11 \<Longrightarrow>
   q = 0 \<or> q = 1 \<or> q = 2 \<or> q = 3 \<or> q = 4 \<or> q = 5 \<or> q = 6 \<or> q = 7 \<or> q = 8 \<or> q = 9 \<or>
   q = 10 \<or> q = (11::int)"
  by arith

lemma monthByEstimate_month:
  assumes m: "1 \<le> m" "m \<le> 12"
    and lo: "daysBefore ! nat (m - 1) \<le> dd" and hi: "dd < daysBefore ! nat m"
  shows "monthByEstimate dd = (m, dd - daysBefore ! nat (m - 1) + 1)"
proof -
  define q where "q = dd div 31"
  have dd: "0 \<le> dd" "dd < 365"
    using month_cases [OF m] lo hi by (auto simp: daysBefore_def)
  have q31: "31 * q \<le> dd" "dd < 31 * q + 31"
  proof -
    have "dd = 31 * q + dd mod 31"
      unfolding q_def by (simp only: mult_div_mod_eq)
    moreover have "0 \<le> dd mod 31" "dd mod 31 < 31"
      by (simp_all only: pos_mod_sign pos_mod_bound zero_less_numeral)
    ultimately show "31 * q \<le> dd" "dd < 31 * q + 31" by linarith+
  qed
  with dd have "0 \<le> q" "q \<le> 11" by linarith+
  from quotient_cases [OF this] month_cases [OF m] show ?thesis
    unfolding monthByEstimate_def q_def [symmetric]
    using q31 lo hi
    by (elim disjE) (simp_all add: daysBefore_def)
qed


lemma daysBefore_bounds:
  assumes "1 \<le> m" "m \<le> 12"
  shows "0 \<le> daysBefore ! nat (m - 1)"
    and "daysBefore ! nat (m - 1) < daysBefore ! nat m"
    and "daysBefore ! nat m \<le> 365"
    and "m \<le> 2 \<Longrightarrow> daysBefore ! nat m \<le> 59"
    and "3 \<le> m \<Longrightarrow> 59 \<le> daysBefore ! nat (m - 1)"
    and "daysBefore ! nat 1 = 31" and "daysBefore ! nat 2 = 59"
  using month_cases [OF assms] by (auto simp: daysBefore_def)

lemma monthDay_valid:
  assumes m: "1 \<le> m" "m \<le> 12" and d: "1 \<le> d" "d \<le> daysIn m y"
  shows "monthDay y (daysBefore ! nat (m - 1) + (if isLeap y \<and> m \<ge> 3 then 1 else 0) + (d - 1))
         = (m, d)"
proof -
  note bounds = daysBefore_bounds [OF m]
  define dd where "dd = daysBefore ! nat (m - 1) + (d - 1)"
  define yday where
    "yday = daysBefore ! nat (m - 1) + (if isLeap y \<and> m \<ge> 3 then 1 else 0) + (d - 1)"
  have "monthDay y yday = (m, d)"
  proof (cases "isLeap y \<and> m = 2 \<and> d = 29")
    case True
    with bounds(6) have "yday = 59" by (simp add: yday_def)
    with True show ?thesis
      by (simp add: monthDay_alt)
  next
    case False
    have in_month: "daysBefore ! nat (m - 1) \<le> dd" "dd < daysBefore ! nat m"
      using d False bounds by (auto simp: dd_def daysIn_def split: if_splits)
    have est: "monthByEstimate dd = (m, d)"
      using monthByEstimate_month [OF m in_month] by (simp add: dd_def)
    have sel: "\<not> (isLeap y \<and> yday = 59)"
      "(if isLeap y \<and> yday > 59 then yday - 1 else yday) = dd"
    proof -
      show "\<not> (isLeap y \<and> yday = 59)"
        using False d bounds by (auto simp: yday_def daysIn_def split: if_splits)
      show "(if isLeap y \<and> yday > 59 then yday - 1 else yday) = dd"
        using False d bounds by (auto simp: yday_def dd_def daysIn_def split: if_splits)
    qed
    show ?thesis
      by (simp only: monthDay_alt sel if_False est)
  qed
  then show ?thesis
    by (simp only: yday_def)
qed

lemma yday_bounds:
  assumes m: "1 \<le> m" "m \<le> 12" and d: "1 \<le> d" "d \<le> daysIn m y"
  shows "0 \<le> daysBefore ! nat (m - 1) + (if isLeap y \<and> m \<ge> 3 then 1 else 0) + (d - 1)"
    and "daysBefore ! nat (m - 1) + (if isLeap y \<and> m \<ge> 3 then 1 else 0) + (d - 1)
         < 365 + (if isLeap y then 1 else 0)"
  using d daysBefore_bounds [OF m] by (auto simp: daysIn_def split: if_splits)

lemma time_date_time_Date:
  assumes m: "1 \<le> m" "m \<le> 12" and d: "1 \<le> d" "d \<le> daysIn m y"
  shows "time_date (time_Date y m d 0 0 0 0) = (y, m, d)"
proof -
  define k where
    "k = daysBefore ! nat (m - 1) + (if isLeap y \<and> m \<ge> 3 then 1 else 0) + (d - 1)"
  have N: "dayNumber y m d = daysSinceEpoch y + k"
    using m by (simp add: dayNumber_valid_month k_def)
  have "((dayNumber y m d - unixEpochDays) * 86400 + 0) div 86400 + unixEpochDays =
        dayNumber y m d"
    by simp
  then have days: "(unixSec (time_Date y m d 0 0 0 0) + zoneOffset (time_Date y m d 0 0 0 0))
      div 86400 + unixEpochDays = daysSinceEpoch y + k"
    by (simp only: time_Date_midnight N Time.simps)
  have year: "absDate (daysSinceEpoch y + k) = (y, k)"
    using yday_bounds [OF m d] by (intro absDate_daysSinceEpoch) (simp_all only: k_def)
  have month: "monthDay y k = (m, d)"
    unfolding k_def by (rule monthDay_valid [OF m d])
  show ?thesis
    unfolding time_date_def Let_def days year by (simp add: month)
qed

section \<open>Differences in days\<close>

text \<open>
  Claim C6. \<^verbatim>\<open>Sub\<close> should return the signed number of whole days between the two dates
  (its doc comment: the days \<open>d - t\<close>), antisymmetric, 0 on equal dates and 1 on consecutive
  days. It computes the difference through a \<^verbatim>\<open>Duration\<close>, which holds at most about 292
  years: from 2000-01-01 to 2400-01-01 there are 146097 days, \<^verbatim>\<open>time.Time.Sub\<close> returns
  the largest \<^verbatim>\<open>Duration\<close> instead of the time elapsed, and the code returns 106751 (and
  \<open>-106751\<close> the other way round). On dates close enough to each other the code gives the
  number of days, also when a month or a day out of range is normalised.
\<close>

theorem Sub_saturates_beyond_292_years:
  "Sub \<lparr>Year = 2400, Month = 1, Day = 1\<rparr> \<lparr>Year = 2000, Month = 1, Day = 1\<rparr> = 106751
   \<and> unixSec (time_Date 2400 1 1 0 0 0 0) - unixSec (time_Date 2000 1 1 0 0 0 0) = 146097 * 86400
   \<and> time_Sub (time_Date 2400 1 1 0 0 0 0) (time_Date 2000 1 1 0 0 0 0) = maxDuration
   \<and> Sub \<lparr>Year = 2000, Month = 1, Day = 1\<rparr> \<lparr>Year = 2400, Month = 1, Day = 1\<rparr> = - 106751
   \<and> Sub \<lparr>Year = 2009, Month = 11, Day = 15\<rparr> \<lparr>Year = 2001, Month = 3, Day = 5\<rparr> = 3177
   \<and> Sub \<lparr>Year = 2001, Month = 3, Day = 5\<rparr> \<lparr>Year = 2009, Month = 11, Day = 15\<rparr> = - 3177
   \<and> Sub \<lparr>Year = 2001, Month = 3, Day = 1\<rparr> \<lparr>Year = 2001, Month = 2, Day = 28\<rparr> = 1
   \<and> Sub \<lparr>Year = 2001, Month = 13, Day = 1\<rparr> \<lparr>Year = 2002, Month = 1, Day = 1\<rparr> = 0
   \<and> Sub \<lparr>Year = 2001, Month = 0, Day = 1\<rparr> \<lparr>Year = 2000, Month = 12, Day = 1\<rparr> = 0
   \<and> Sub \<lparr>Year = 2001, Month = 3, Day = 0\<rparr> \<lparr>Year = 2001, Month = 2, Day = 28\<rparr> = 0"
  by code_simp

section \<open>Properties of the text output\<close>

text \<open>
  Claim C1. For every Date, \<^verbatim>\<open>String\<close>, \<^verbatim>\<open>MarshalText\<close> and \<^verbatim>\<open>Value\<close> should give the
  zero-padded form \<^verbatim>\<open>YYYY-MM-DD\<close> and no error, with \<^verbatim>\<open>Date{7, January, 3}\<close> printed as
  \<^verbatim>\<open>0007-01-03\<close>. The three functions do agree and never return an error, but the year
  is formatted with \<^verbatim>\<open>%4d\<close>, which pads with spaces: the code prints
  \<^verbatim>\<open>Date{7, January, 3}\<close> as three spaces followed by \<^verbatim>\<open>7-01-03\<close>. (A year of four
  digits is printed as the claim says: \<^verbatim>\<open>Date{2001, March, 5}\<close> gives \<^verbatim>\<open>2001-03-05\<close>.)
\<close>

theorem String_year_7_is_space_padded:
  "String \<lparr>Year = 7, Month = 1, Day = 3\<rparr> = ''   7-01-03''
   \<and> String \<lparr>Year = 7, Month = 1, Day = 3\<rparr> \<noteq> ''0007-01-03''
   \<and> String \<lparr>Year = 2001, Month = 3, Day = 5\<rparr> = ''2001-03-05''
   \<and> MarshalText d = (String d, None)
   \<and> Value d = (StringValue (String d), None)"
proof -
  have "String \<lparr>Year = 7, Month = 1, Day = 3\<rparr> = ''   7-01-03''"
    and "String \<lparr>Year = 2001, Month = 3, Day = 5\<rparr> = ''2001-03-05''"
    by code_simp+
  then show ?thesis
    by (simp add: MarshalText_def Value_def)
qed

section \<open>Parsing and scanning\<close>

lemma UnmarshalText_part_000_cases:
  "UnmarshalText_part_000 tp d b =
     (case tp ''2006-01-02'' b of
        Inr t \<Rightarrow> (Of t, None)
      | Inl e1 \<Rightarrow>
          (case tp ''2006/01/02'' b of
             Inr t \<Rightarrow> (Of t, None)
           | Inl e2 \<Rightarrow>
               (case tp ''02 Jan 2006'' b of
                  Inr t \<Rightarrow> (Of t, None)
                | Inl e3 \<Rightarrow>
                    (zero_Date,
                     Some (Errorf (''date: Unsupported format '' @ b @ only_supported))))))"
  by (simp add: UnmarshalText_part_000_def layouts_def Parse_def split: sum.splits)

lemma UnmarshalText_date_go_cases:
  "UnmarshalText_date_go tp d b =
     (case tp ''2006-01-02'' b of
        Inr t \<Rightarrow> (Of t, None)
      | Inl e1 \<Rightarrow>
          (case tp ''2006/01/02'' b of
             Inr t \<Rightarrow> (Of t, None)
           | Inl e2 \<Rightarrow>
               (case tp ''02 Jan 2006'' b of
                  Inr t \<Rightarrow> (Of t, None)
                | Inl e3 \<Rightarrow>
                    (d, Some (Errorf (''Date.UnmarshalText: Unsupported format '' @ b @
                                      only_supported))))))"
  by (simp add: UnmarshalText_date_go_def layouts_def split: sum.splits)

text \<open>What \<open>time_Parse\<close> gives on the texts of the package's tests.\<close>

lemma time_Parse_dash_2009: "time_Parse ''2006-01-02'' ''2009-11-15'' =
    Inr \<lparr>unixSec = 1258243200, nsec = 0, zoneOffset = 0\<rparr>"
  by code_simp

lemma time_Parse_dash_slash_2009: "time_Parse ''2006-01-02'' ''2009/11/15'' =
    Inl (ParseError ''2006-01-02'' ''2009/11/15'' ''-'' ''/11/15'' NoMessage)"
  by code_simp

lemma time_Parse_slash_2009: "time_Parse ''2006/01/02'' ''2009/11/15'' =
    Inr \<lparr>unixSec = 1258243200, nsec = 0, zoneOffset = 0\<rparr>"
  by code_simp

lemma time_Parse_dash_Nov_2009: "time_Parse ''2006-01-02'' ''15 Nov 2009'' =
    Inl (ParseError ''2006-01-02'' ''15 Nov 2009'' ''2006'' ''15 Nov 2009'' NoMessage)"
  by code_simp

lemma time_Parse_slash_Nov_2009: "time_Parse ''2006/01/02'' ''15 Nov 2009'' =
    Inl (ParseError ''2006/01/02'' ''15 Nov 2009'' ''2006'' ''15 Nov 2009'' NoMessage)"
  by code_simp

lemma time_Parse_Jan_Nov_2009: "time_Parse ''02 Jan 2006'' ''15 Nov 2009'' =
    Inr \<lparr>unixSec = 1258243200, nsec = 0, zoneOffset = 0\<rparr>"
  by code_simp

lemma time_Parse_dash_not_a_date: "time_Parse ''2006-01-02'' ''not-a-date'' =
    Inl (ParseError ''2006-01-02'' ''not-a-date'' ''2006'' ''not-a-date'' NoMessage)"
  by code_simp

lemma time_Parse_slash_not_a_date: "time_Parse ''2006/01/02'' ''not-a-date'' =
    Inl (ParseError ''2006/01/02'' ''not-a-date'' ''2006'' ''not-a-date'' NoMessage)"
  by code_simp

lemma time_Parse_Jan_not_a_date: "time_Parse ''02 Jan 2006'' ''not-a-date'' =
    Inl (ParseError ''02 Jan 2006'' ''not-a-date'' ''02'' ''not-a-date'' NoMessage)"
  by code_simp

lemma Of_2009_11_15:
  "Of \<lparr>unixSec = 1258243200, nsec = 0, zoneOffset = 0\<rparr> = \<lparr>Year = 2009, Month = 11, Day = 15\<rparr>"
  by code_simp

text \<open>
  Claim C10. Whenever the time parser fails on a layout and a text, \<^verbatim>\<open>Parse\<close> returns
  the zero Date (year 0, month 0, day 0) together with the parser's error.
\<close>

theorem Parse_failure_returns_zero_Date:
  "timeParse layout d = Inl err \<Longrightarrow>
   Parse timeParse layout d = (\<lparr>Year = 0, Month = 0, Day = 0\<rparr>, Some err)"
  by (simp add: Parse_def zero_Date_def)

theorem Parse_failure_returns_zero_Date_witness:
  "time_Parse ''2006-01-02'' ''2017/13/01'' =
     Inl (ParseError ''2006-01-02'' ''2017/13/01'' ''-'' ''/13/01'' NoMessage)
   \<and> Parse time_Parse ''2006-01-02'' ''2017/13/01'' =
     (\<lparr>Year = 0, Month = 0, Day = 0\<rparr>,
      Some (ParseError ''2006-01-02'' ''2017/13/01'' ''-'' ''/13/01'' NoMessage))"
proof -
  have failure: "time_Parse ''2006-01-02'' ''2017/13/01'' =
      Inl (ParseError ''2006-01-02'' ''2017/13/01'' ''-'' ''/13/01'' NoMessage)"
    by code_simp
  from failure
    Parse_failure_returns_zero_Date
      [where timeParse = time_Parse and layout = "''2006-01-02''" and d = "''2017/13/01''"]
  show ?thesis
    by simp
qed

text \<open>
  Claim C9. When the value given to \<^verbatim>\<open>Scan\<close> is of a type other than \<^verbatim>\<open>time.Time\<close>,
  \<^verbatim>\<open>[]byte\<close> and \<^verbatim>\<open>string\<close>, \<^verbatim>\<open>Scan\<close> returns its unsupported-type error and the
  receiver is left as it was. This holds of both versions of \<^verbatim>\<open>Scan\<close>.
\<close>

theorem Scan_unsupported_type_keeps_receiver:
  "Scan_part_000 timeParse d (OtherValue T) =
     (d, Some (Errorf (''date: Unsupport scanning type '' @ T)))
   \<and> Scan_date_go timeParse d (OtherValue T) =
     (d, Some (Errorf (''date: Unsupport scanning type '' @ T)))"
  by (simp add: Scan_part_000_def Scan_date_go_def)

theorem Scan_unsupported_type_keeps_receiver_witness:
  "Scan_part_000 time_Parse \<lparr>Year = 2001, Month = 3, Day = 5\<rparr> (OtherValue ''int'') =
     (\<lparr>Year = 2001, Month = 3, Day = 5\<rparr>, Some (Errorf ''date: Unsupport scanning type int''))
   \<and> Scan_date_go time_Parse \<lparr>Year = 2001, Month = 3, Day = 5\<rparr> (OtherValue ''int'') =
     (\<lparr>Year = 2001, Month = 3, Day = 5\<rparr>, Some (Errorf ''date: Unsupport scanning type int''))"
  using Scan_unsupported_type_keeps_receiver
    [of time_Parse "\<lparr>Year = 2001, Month = 3, Day = 5\<rparr>" "''int''"]
  by simp

text \<open>
  Claim C4, as stated: \<^verbatim>\<open>Scan\<close> projects a \<^verbatim>\<open>time.Time\<close> with \<^verbatim>\<open>Of\<close>, hands a
  \<^verbatim>\<open>[]byte\<close> to the three-layout \<^verbatim>\<open>UnmarshalText\<close>, treats a \<^verbatim>\<open>string\<close> like the same
  bytes, and fails on any other type with an error naming the type. The \<^verbatim>\<open>Scan\<close> of
  \<^verbatim>\<open>src/date.go\<close> does not: given a string it returns the unsupported-type error, while
  it parses the same bytes.
\<close>

theorem Scan_date_go_string_is_unsupported:
  "Scan_date_go time_Parse \<lparr>Year = 2001, Month = 3, Day = 5\<rparr> (StringValue ''2009-11-15'') =
     (\<lparr>Year = 2001, Month = 3, Day = 5\<rparr>, Some (Errorf ''date: Unsupport scanning type string''))
   \<and> Scan_date_go time_Parse \<lparr>Year = 2001, Month = 3, Day = 5\<rparr> (BytesValue ''2009-11-15'') =
     (\<lparr>Year = 2009, Month = 11, Day = 15\<rparr>, None)"
  using Of_2009_11_15
  by (simp add: Scan_date_go_def time_Parse_dash_2009 Of_def)

text \<open>
  Claim C4, amended. The \<^verbatim>\<open>Scan\<close> of \<^verbatim>\<open>src/unnamed/part_000\<close> does what the claim says.
  The \<^verbatim>\<open>Scan\<close> of \<^verbatim>\<open>src/date.go\<close> projects a \<^verbatim>\<open>time.Time\<close> to its year, month and
  day and succeeds; it parses a \<^verbatim>\<open>[]byte\<close> with the single layout \<^verbatim>\<open>2006-01-02\<close>,
  returning the parser's error and leaving the receiver on failure; and it fails on a
  \<^verbatim>\<open>string\<close> and on any other type with an error naming the type, leaving the receiver.
\<close>

theorem Scan_dispatch_by_type:
  "Scan_part_000 timeParse d (TimeValue t) = (Of t, None)
   \<and> Scan_part_000 timeParse d (BytesValue b) = UnmarshalText_part_000 timeParse d b
   \<and> Scan_part_000 timeParse d (StringValue b) = Scan_part_000 timeParse d (BytesValue b)
   \<and> Scan_part_000 timeParse d (OtherValue T) =
       (d, Some (Errorf (''date: Unsupport scanning type '' @ T)))
   \<and> Scan_date_go timeParse d (TimeValue t) = (Of t, None)
   \<and> Scan_date_go timeParse d (BytesValue b) =
       (case timeParse ''2006-01-02'' b of
          Inl err \<Rightarrow> (d, Some err)
        | Inr t \<Rightarrow> (Of t, None))
   \<and> Scan_date_go timeParse d (StringValue b) =
       (d, Some (Errorf ''date: Unsupport scanning type string''))
   \<and> Scan_date_go timeParse d (OtherValue T) =
       (d, Some (Errorf (''date: Unsupport scanning type '' @ T)))
   \<and> Of t = \<lparr>Year = time_Year t, Month = time_Month t, Day = time_Day t\<rparr>"
  by (simp add: Scan_part_000_def Scan_date_go_def Of_def split: sum.splits)

theorem Scan_dispatch_by_type_witness:
  "Scan_part_000 time_Parse \<lparr>Year = 2001, Month = 3, Day = 5\<rparr>
     (TimeValue \<lparr>unixSec = 1258243200, nsec = 0, zoneOffset = 0\<rparr>) =
     (\<lparr>Year = 2009, Month = 11, Day = 15\<rparr>, None)
   \<and> Scan_part_000 time_Parse \<lparr>Year = 2001, Month = 3, Day = 5\<rparr> (StringValue ''2009/11/15'') =
     (\<lparr>Year = 2009, Month = 11, Day = 15\<rparr>, None)
   \<and> Scan_date_go time_Parse \<lparr>Year = 2001, Month = 3, Day = 5\<rparr> (BytesValue ''2009/11/15'') =
     (\<lparr>Year = 2001, Month = 3, Day = 5\<rparr>,
      Some (ParseError ''2006-01-02'' ''2009/11/15'' ''-'' ''/11/15'' NoMessage))"
  using Scan_dispatch_by_type
    [of time_Parse "\<lparr>Year = 2001, Month = 3, Day = 5\<rparr>"
        "\<lparr>unixSec = 1258243200, nsec = 0, zoneOffset = 0\<rparr>" "''2009/11/15''" "''int''"]
  by (simp add: UnmarshalText_part_000_cases time_Parse_dash_slash_2009 time_Parse_slash_2009
      Of_2009_11_15)

text \<open>
  Claim C3, as stated: after \<^verbatim>\<open>UnmarshalText\<close> fails the receiver holds its prior value.
  The \<^verbatim>\<open>UnmarshalText\<close> of \<^verbatim>\<open>src/unnamed/part_000\<close> assigns the result of each
  \<^verbatim>\<open>Parse\<close> to the receiver: on the text \<^verbatim>\<open>not-a-date\<close> a receiver holding 2001-03-05
  is left holding the zero Date.
\<close>

theorem UnmarshalText_part_000_failure_overwrites:
  "UnmarshalText_part_000 time_Parse \<lparr>Year = 2001, Month = 3, Day = 5\<rparr> ''not-a-date'' =
     (\<lparr>Year = 0, Month = 0, Day = 0\<rparr>,
      Some (Errorf (''date: Unsupported format not-a-date'' @ only_supported)))
   \<and> \<lparr>Year = 0, Month = 0, Day = 0\<rparr> \<noteq> \<lparr>Year = 2001, Month = 3, Day = 5\<rparr>"
  by (simp add: UnmarshalText_part_000_cases time_Parse_dash_not_a_date
      time_Parse_slash_not_a_date time_Parse_Jan_not_a_date zero_Date_def)

text \<open>
  Claim C3, amended. When the text matches none of the three layouts, both versions of
  \<^verbatim>\<open>UnmarshalText\<close> return their error; the version of \<^verbatim>\<open>src/date.go\<close> leaves the
  receiver holding its prior value, and the version of \<^verbatim>\<open>src/unnamed/part_000\<close> leaves
  it holding the zero Date.
\<close>

theorem UnmarshalText_receiver_after_failure:
  "timeParse ''2006-01-02'' b = Inl e1 \<Longrightarrow>
   timeParse ''2006/01/02'' b = Inl e2 \<Longrightarrow>
   timeParse ''02 Jan 2006'' b = Inl e3 \<Longrightarrow>
   UnmarshalText_date_go timeParse d b =
     (d, Some (Errorf (''Date.UnmarshalText: Unsupported format '' @ b @ only_supported)))
   \<and> UnmarshalText_part_000 timeParse d b =
     (\<lparr>Year = 0, Month = 0, Day = 0\<rparr>,
      Some (Errorf (''date: Unsupported format '' @ b @ only_supported)))"
  by (simp add: UnmarshalText_part_000_cases UnmarshalText_date_go_cases zero_Date_def)

theorem UnmarshalText_receiver_after_failure_witness:
  "UnmarshalText_date_go time_Parse \<lparr>Year = 2001, Month = 3, Day = 5\<rparr> ''not-a-date'' =
     (\<lparr>Year = 2001, Month = 3, Day = 5\<rparr>,
      Some (Errorf (''Date.UnmarshalText: Unsupported format not-a-date'' @ only_supported)))
   \<and> UnmarshalText_part_000 time_Parse \<lparr>Year = 2001, Month = 3, Day = 5\<rparr> ''not-a-date'' =
     (\<lparr>Year = 0, Month = 0, Day = 0\<rparr>,
      Some (Errorf (''date: Unsupported format not-a-date'' @ only_supported)))"
  using UnmarshalText_receiver_after_failure
    [where timeParse = time_Parse and b = "''not-a-date''"
       and d = "\<lparr>Year = 2001, Month = 3, Day = 5\<rparr>"]
    time_Parse_dash_not_a_date time_Parse_slash_not_a_date time_Parse_Jan_not_a_date
  by simp

text \<open>
  Claim C5. \<^verbatim>\<open>UnmarshalText\<close> tries the layouts \<^verbatim>\<open>2006-01-02\<close>, \<^verbatim>\<open>2006/01/02\<close> and
  \<^verbatim>\<open>02 Jan 2006\<close> in this order and takes the first that parses; when none does it
  returns an error whose message carries the input. The texts \<^verbatim>\<open>2009-11-15\<close>,
  \<^verbatim>\<open>2009/11/15\<close> and \<^verbatim>\<open>15 Nov 2009\<close> all give the Date 2009-11-15, and
  \<^verbatim>\<open>not-a-date\<close> gives the error. This holds of both versions of \<^verbatim>\<open>UnmarshalText\<close>.
\<close>

theorem UnmarshalText_three_layouts_in_order:
  "(timeParse ''2006-01-02'' b1 = Inr t1 \<longrightarrow>
      UnmarshalText_part_000 timeParse d b1 = (Of t1, None)
      \<and> UnmarshalText_date_go timeParse d b1 = (Of t1, None))
   \<and> (timeParse ''2006-01-02'' b2 = Inl e21 \<and> timeParse ''2006/01/02'' b2 = Inr t2 \<longrightarrow>
      UnmarshalText_part_000 timeParse d b2 = (Of t2, None)
      \<and> UnmarshalText_date_go timeParse d b2 = (Of t2, None))
   \<and> (timeParse ''2006-01-02'' b3 = Inl e31 \<and> timeParse ''2006/01/02'' b3 = Inl e32
        \<and> timeParse ''02 Jan 2006'' b3 = Inr t3 \<longrightarrow>
      UnmarshalText_part_000 timeParse d b3 = (Of t3, None)
      \<and> UnmarshalText_date_go timeParse d b3 = (Of t3, None))
   \<and> (timeParse ''2006-01-02'' b4 = Inl e41 \<and> timeParse ''2006/01/02'' b4 = Inl e42
        \<and> timeParse ''02 Jan 2006'' b4 = Inl e43 \<longrightarrow>
      snd (UnmarshalText_part_000 timeParse d b4) =
        Some (Errorf (''date: Unsupported format '' @ b4 @ only_supported))
      \<and> snd (UnmarshalText_date_go timeParse d b4) =
        Some (Errorf (''Date.UnmarshalText: Unsupported format '' @ b4 @ only_supported)))
   \<and> UnmarshalText_part_000 time_Parse d ''2009-11-15'' = (\<lparr>Year = 2009, Month = 11, Day = 15\<rparr>, None)
   \<and> UnmarshalText_part_000 time_Parse d ''2009/11/15'' = (\<lparr>Year = 2009, Month = 11, Day = 15\<rparr>, None)
   \<and> UnmarshalText_part_000 time_Parse d ''15 Nov 2009'' = (\<lparr>Year = 2009, Month = 11, Day = 15\<rparr>, None)
   \<and> UnmarshalText_date_go time_Parse d ''2009-11-15'' = (\<lparr>Year = 2009, Month = 11, Day = 15\<rparr>, None)
   \<and> UnmarshalText_date_go time_Parse d ''2009/11/15'' = (\<lparr>Year = 2009, Month = 11, Day = 15\<rparr>, None)
   \<and> UnmarshalText_date_go time_Parse d ''15 Nov 2009'' = (\<lparr>Year = 2009, Month = 11, Day = 15\<rparr>, None)
   \<and> snd (UnmarshalText_part_000 time_Parse d ''not-a-date'') =
        Some (Errorf (''date: Unsupported format not-a-date'' @ only_supported))
   \<and> snd (UnmarshalText_date_go time_Parse d ''not-a-date'') =
        Some (Errorf (''Date.UnmarshalText: Unsupported format not-a-date'' @ only_supported))"
proof -
  have first_layout:
    "(timeParse ''2006-01-02'' b1 = Inr t1 \<longrightarrow>
          UnmarshalText_part_000 timeParse d b1 = (Of t1, None)
          \<and> UnmarshalText_date_go timeParse d b1 = (Of t1, None))"
    by (simp add: UnmarshalText_part_000_cases UnmarshalText_date_go_cases)
  have second_layout:
    "(timeParse ''2006-01-02'' b2 = Inl e21 \<and> timeParse ''2006/01/02'' b2 = Inr t2 \<longrightarrow>
          UnmarshalText_part_000 timeParse d b2 = (Of t2, None)
          \<and> UnmarshalText_date_go timeParse d b2 = (Of t2, None))"
    by (simp add: UnmarshalText_part_000_cases UnmarshalText_date_go_cases)
  have third_layout:
    "(timeParse ''2006-01-02'' b3 = Inl e31 \<and> timeParse ''2006/01/02'' b3 = Inl e32
            \<and> timeParse ''02 Jan 2006'' b3 = Inr t3 \<longrightarrow>
          UnmarshalText_part_000 timeParse d b3 = (Of t3, None)
          \<and> UnmarshalText_date_go timeParse d b3 = (Of t3, None))"
    by (simp add: UnmarshalText_part_000_cases UnmarshalText_date_go_cases)
  have no_layout:
    "(timeParse ''2006-01-02'' b4 = Inl e41 \<and> timeParse ''2006/01/02'' b4 = Inl e42
            \<and> timeParse ''02 Jan 2006'' b4 = Inl e43 \<longrightarrow>
          snd (UnmarshalText_part_000 timeParse d b4) =
            Some (Errorf (''date: Unsupported format '' @ b4 @ only_supported))
          \<and> snd (UnmarshalText_date_go timeParse d b4) =
            Some (Errorf (''Date.UnmarshalText: Unsupported format '' @ b4 @ only_supported)))"
    by (simp add: UnmarshalText_part_000_cases UnmarshalText_date_go_cases)
  have dash_part_000:
    "UnmarshalText_part_000 time_Parse d ''2009-11-15'' = (\<lparr>Year = 2009, Month = 11, Day = 15\<rparr>, None)"
    by (simp add: UnmarshalText_part_000_cases UnmarshalText_date_go_cases
        time_Parse_dash_2009 time_Parse_dash_slash_2009 time_Parse_slash_2009
        time_Parse_dash_Nov_2009 time_Parse_slash_Nov_2009 time_Parse_Jan_Nov_2009
        time_Parse_dash_not_a_date time_Parse_slash_not_a_date time_Parse_Jan_not_a_date
        Of_2009_11_15)
  have slash_part_000:
    "UnmarshalText_part_000 time_Parse d ''2009/11/15'' = (\<lparr>Year = 2009, Month = 11, Day = 15\<rparr>, None)"
    by (simp add: UnmarshalText_part_000_cases UnmarshalText_date_go_cases
        time_Parse_dash_2009 time_Parse_dash_slash_2009 time_Parse_slash_2009
        time_Parse_dash_Nov_2009 time_Parse_slash_Nov_2009 time_Parse_Jan_Nov_2009
        time_Parse_dash_not_a_date time_Parse_slash_not_a_date time_Parse_Jan_not_a_date
        Of_2009_11_15)
  have month_part_000:
    "UnmarshalText_part_000 time_Parse d ''15 Nov 2009'' = (\<lparr>Year = 2009, Month = 11, Day = 15\<rparr>, None)"
    by (simp add: UnmarshalText_part_000_cases UnmarshalText_date_go_cases
        time_Parse_dash_2009 time_Parse_dash_slash_2009 time_Parse_slash_2009
        time_Parse_dash_Nov_2009 time_Parse_slash_Nov_2009 time_Parse_Jan_Nov_2009
        time_Parse_dash_not_a_date time_Parse_slash_not_a_date time_Parse_Jan_not_a_date
        Of_2009_11_15)
  have dash_date_go:
    "UnmarshalText_date_go time_Parse d ''2009-11-15'' = (\<lparr>Year = 2009, Month = 11, Day = 15\<rparr>, None)"
    by (simp add: UnmarshalText_part_000_cases UnmarshalText_date_go_cases
        time_Parse_dash_2009 time_Parse_dash_slash_2009 time_Parse_slash_2009
        time_Parse_dash_Nov_2009 time_Parse_slash_Nov_2009 time_Parse_Jan_Nov_2009
        time_Parse_dash_not_a_date time_Parse_slash_not_a_date time_Parse_Jan_not_a_date
        Of_2009_11_15)
  have slash_date_go:
    "UnmarshalText_date_go time_Parse d ''2009/11/15'' = (\<lparr>Year = 2009, Month = 11, Day = 15\<rparr>, None)"
    by (simp add: UnmarshalText_part_000_cases UnmarshalText_date_go_cases
        time_Parse_dash_2009 time_Parse_dash_slash_2009 time_Parse_slash_2009
        time_Parse_dash_Nov_2009 time_Parse_slash_Nov_2009 time_Parse_Jan_Nov_2009
        time_Parse_dash_not_a_date time_Parse_slash_not_a_date time_Parse_Jan_not_a_date
        Of_2009_11_15)
  have month_date_go:
    "UnmarshalText_date_go time_Parse d ''15 Nov 2009'' = (\<lparr>Year = 2009, Month = 11, Day = 15\<rparr>, None)"
    by (simp add: UnmarshalText_part_000_cases UnmarshalText_date_go_cases
        time_Parse_dash_2009 time_Parse_dash_slash_2009 time_Parse_slash_2009
        time_Parse_dash_Nov_2009 time_Parse_slash_Nov_2009 time_Parse_Jan_Nov_2009
        time_Parse_dash_not_a_date time_Parse_slash_not_a_date time_Parse_Jan_not_a_date
        Of_2009_11_15)
  have error_part_000:
    "snd (UnmarshalText_part_000 time_Parse d ''not-a-date'') =
            Some (Errorf (''date: Unsupported format not-a-date'' @ only_supported))"
    by (simp add: UnmarshalText_part_000_cases UnmarshalText_date_go_cases
        time_Parse_dash_2009 time_Parse_dash_slash_2009 time_Parse_slash_2009
        time_Parse_dash_Nov_2009 time_Parse_slash_Nov_2009 time_Parse_Jan_Nov_2009
        time_Parse_dash_not_a_date time_Parse_slash_not_a_date time_Parse_Jan_not_a_date
        Of_2009_11_15)
  have error_date_go:
    "snd (UnmarshalText_date_go time_Parse d ''not-a-date'') =
            Some (Errorf (''Date.UnmarshalText: Unsupported format not-a-date'' @ only_supported))"
    by (simp add: UnmarshalText_part_000_cases UnmarshalText_date_go_cases
        time_Parse_dash_2009 time_Parse_dash_slash_2009 time_Parse_slash_2009
        time_Parse_dash_Nov_2009 time_Parse_slash_Nov_2009 time_Parse_Jan_Nov_2009
        time_Parse_dash_not_a_date time_Parse_slash_not_a_date time_Parse_Jan_not_a_date
        Of_2009_11_15)
  show ?thesis
    by (intro conjI first_layout second_layout third_layout no_layout dash_part_000 slash_part_000 month_part_000 dash_date_go slash_date_go month_date_go error_part_000 error_date_go)
qed

theorem UnmarshalText_three_layouts_in_order_witness:
  "UnmarshalText_part_000 time_Parse \<lparr>Year = 0, Month = 0, Day = 0\<rparr> ''2009-11-15'' =
     (Of \<lparr>unixSec = 1258243200, nsec = 0, zoneOffset = 0\<rparr>, None)
   \<and> UnmarshalText_date_go time_Parse \<lparr>Year = 0, Month = 0, Day = 0\<rparr> ''2009/11/15'' =
     (Of \<lparr>unixSec = 1258243200, nsec = 0, zoneOffset = 0\<rparr>, None)
   \<and> UnmarshalText_part_000 time_Parse \<lparr>Year = 0, Month = 0, Day = 0\<rparr> ''15 Nov 2009'' =
     (Of \<lparr>unixSec = 1258243200, nsec = 0, zoneOffset = 0\<rparr>, None)
   \<and> snd (UnmarshalText_part_000 time_Parse \<lparr>Year = 0, Month = 0, Day = 0\<rparr> ''not-a-date'') =
     Some (Errorf (''date: Unsupported format not-a-date'' @ only_supported))"
  using UnmarshalText_three_layouts_in_order
    [where timeParse = time_Parse and d = "\<lparr>Year = 0, Month = 0, Day = 0\<rparr>"
       and ?b1.0 = "''2009-11-15''" and ?b2.0 = "''2009/11/15''" and ?b3.0 = "''15 Nov 2009''"
       and ?b4.0 = "''not-a-date''"
       and ?t1.0 = "\<lparr>unixSec = 1258243200, nsec = 0, zoneOffset = 0\<rparr>"
       and ?t2.0 = "\<lparr>unixSec = 1258243200, nsec = 0, zoneOffset = 0\<rparr>"
       and ?t3.0 = "\<lparr>unixSec = 1258243200, nsec = 0, zoneOffset = 0\<rparr>"]
    Of_2009_11_15 [symmetric] time_Parse_dash_2009 time_Parse_dash_slash_2009 time_Parse_slash_2009
    time_Parse_dash_Nov_2009 time_Parse_slash_Nov_2009 time_Parse_Jan_Nov_2009
    time_Parse_dash_not_a_date time_Parse_slash_not_a_date time_Parse_Jan_not_a_date
  by simp

section \<open>The round trip through text\<close>

lemma of_char_digit_char: "n < 10 \<Longrightarrow> (of_char (digit_char n) :: nat) = 48 + n"
  by (simp add: digit_char_def)

lemma isDigitChar_digit_char: "n < 10 \<Longrightarrow> isDigitChar (digit_char n)"
  by (simp add: isDigitChar_def of_char_digit_char)

lemma digitVal_digit_char: "n < 10 \<Longrightarrow> digitVal (digit_char n) = int n"
  by (simp add: digitVal_def of_char_digit_char)

lemma digit_char_not_sign:
  assumes "n < 10"
  shows "digit_char n \<noteq> CHR ''-''" and "digit_char n \<noteq> CHR ''+''"
proof -
  have "(of_char (digit_char n) :: nat) \<noteq> of_char CHR ''-''"
    "(of_char (digit_char n) :: nat) \<noteq> of_char CHR ''+''"
    using assms by (simp_all add: of_char_digit_char)
  then show "digit_char n \<noteq> CHR ''-''" and "digit_char n \<noteq> CHR ''+''"
    by auto
qed

lemma dec_digits_1: "e < 10 \<Longrightarrow> dec_digits e = [digit_char e]"
  by (simp add: dec_digits.simps)

lemma dec_digits_step:
  "0 < x \<Longrightarrow> e < 10 \<Longrightarrow> dec_digits (10 * x + e) = dec_digits x @ [digit_char e]"
  by (subst dec_digits.simps) simp

lemma dec_digits_2:
  "0 < a \<Longrightarrow> a < 10 \<Longrightarrow> e < 10 \<Longrightarrow> dec_digits (10 * a + e) = [digit_char a, digit_char e]"
  by (simp add: dec_digits_step dec_digits_1)

lemma dec_digits_4:
  assumes "0 < a" "a < 10" "b < 10" "c < 10" "e < 10"
  shows "dec_digits (1000 * a + 100 * b + 10 * c + e) =
         [digit_char a, digit_char b, digit_char c, digit_char e]"
proof -
  have nested: "dec_digits (10 * (10 * (10 * a + b) + c) + e) =
        [digit_char a, digit_char b, digit_char c, digit_char e]"
  proof -
    have p1: "0 < 10 * a + b" and p2: "0 < 10 * (10 * a + b) + c"
      using assms by simp_all
    show ?thesis
      by (simp only: dec_digits_step [OF p2 assms(5)] dec_digits_step [OF p1 assms(4)]
          dec_digits_step [OF assms(1) assms(3)] dec_digits_1 [OF assms(2)] append.simps)
  qed
  have eq: "1000 * a + 100 * b + 10 * c + e = 10 * (10 * (10 * a + b) + c) + e"
    by simp
  show ?thesis
    by (subst eq) (rule nested)
qed

lemma digit_char_0: "digit_char 0 = CHR ''0''"
  by code_simp

lemma digits_4:
  fixes n :: nat
  assumes "1000 \<le> n" "n \<le> 9999"
  obtains a b c e where "n = 1000 * a + 100 * b + 10 * c + e" "0 < a" "a < 10" "b < 10" "c < 10" "e < 10"
proof -
  define e where "e = n mod 10"
  define n1 where "n1 = n div 10"
  define c where "c = n1 mod 10"
  define n2 where "n2 = n1 div 10"
  define b where "b = n2 mod 10"
  define a where "a = n2 div 10"
  have 1: "n = 10 * n1 + e" "e < 10" by (simp_all add: e_def n1_def)
  have 2: "n1 = 10 * n2 + c" "c < 10" by (simp_all add: c_def n2_def)
  have 3: "n2 = 10 * a + b" "b < 10" by (simp_all add: b_def a_def)
  from 1 2 3 assms have "0 < a" "a < 10" by linarith+
  moreover from 1 2 3 have "n = 1000 * a + 100 * b + 10 * c + e" by linarith
  ultimately show thesis using that 1 2 3 by blast
qed

lemma digits_2:
  fixes n :: nat
  assumes "n \<le> 99"
  obtains a e where "n = 10 * a + e" "a < 10" "e < 10"
proof -
  define e where "e = n mod 10"
  define a where "a = n div 10"
  have 1: "n = 10 * a + e" "e < 10" by (simp_all add: e_def a_def)
  with assms have "a < 10" by linarith
  with 1 that show thesis by blast
qed


lemma fmtInteger_year:
  assumes "0 < a" "a < 10" "b < 10" "c < 10" "e < 10"
  shows "fmtInteger 4 False (int (1000 * a + 100 * b + 10 * c + e)) =
         [digit_char a, digit_char b, digit_char c, digit_char e]"
proof -
  have "nat \<bar>int (1000 * a + 100 * b + 10 * c + e)\<bar> = 1000 * a + 100 * b + 10 * c + e"
    by simp
  then show ?thesis
    unfolding fmtInteger_def Let_def
    by (simp only: dec_digits_4 [OF assms]) simp
qed

lemma fmtInteger_two:
  assumes "a < 10" "e < 10"
  shows "fmtInteger 2 True (int (10 * a + e)) = [digit_char a, digit_char e]"
proof (cases "a = 0")
  case True
  with assms show ?thesis
    by (simp add: fmtInteger_def dec_digits_1 digit_char_0)
next
  case False
  with assms have "dec_digits (10 * a + e) = [digit_char a, digit_char e]"
    by (simp add: dec_digits_2)
  moreover have "nat \<bar>int (10 * a + e)\<bar> = 10 * a + e" by simp
  ultimately show ?thesis
    unfolding fmtInteger_def Let_def by (simp only:) simp
qed


lemma leadingInt_from_digit:
  "n < 10 \<Longrightarrow> 0 \<le> x \<Longrightarrow> x < 1000000 \<Longrightarrow>
   leadingInt_from x (digit_char n # cs) = leadingInt_from (x * 10 + int n) cs"
  by (simp add: isDigitChar_digit_char digitVal_digit_char del: leadingInt_from.simps
      add: leadingInt_from.simps(2) [of x "digit_char n" cs])

lemma atoi_4:
  assumes "a < 10" "b < 10" "c < 10" "e < 10"
  shows "atoi [digit_char a, digit_char b, digit_char c, digit_char e] =
         Some (int (1000 * a + 100 * b + 10 * c + e))"
proof -
  have "leadingInt_from 0 [digit_char a, digit_char b, digit_char c, digit_char e] =
        Some (int (1000 * a + 100 * b + 10 * c + e), [])"
    using assms
    by (simp del: leadingInt_from.simps add: leadingInt_from_digit leadingInt_from.simps(1))
  moreover have "int (1000 * a + 100 * b + 10 * c + e) \<noteq> 2 ^ 63"
    using assms by simp
  ultimately show ?thesis
    using assms(1)
    by (simp add: atoi_def leadingInt_def digit_char_not_sign del: leadingInt_from.simps)
qed

lemma getnum_2:
  "a < 10 \<Longrightarrow> e < 10 \<Longrightarrow>
   getnum (digit_char a # digit_char e # rest) fixed = (int (10 * a + e), rest, True)"
  by (simp add: getnum_def isDigit_def isDigitChar_digit_char digitVal_digit_char)

lemma nextStdChunk_canonical:
  "nextStdChunk ''2006-01-02'' = ([], Some stdLongYear, ''-01-02'')"
  "nextStdChunk ''-01-02'' = (''-'', Some stdZeroMonth, ''-02'')"
  "nextStdChunk ''-02'' = (''-'', Some stdZeroDay, [])"
  "nextStdChunk [] = ([], None, [])"
  by code_simp+

lemma skip_dash: "skip (CHR ''-'' # value) ''-'' = (value, True)"
  by simp

lemma skip_nothing: "skip value [] = (value, True)"
  by simp

lemma parseStd_year:
  assumes "a < 10" "b < 10" "c < 10" "e < 10"
  shows "parseStd stdLongYear (digit_char a # digit_char b # digit_char c # digit_char e # rest)
           year month day =
         Some (int (1000 * a + 100 * b + 10 * c + e), month, day, rest,
               digit_char a # digit_char b # digit_char c # digit_char e # rest, True, [])"
  using assms
  by (simp add: parseStd_def isDigit_def isDigitChar_digit_char atoi_4)

lemma parseStd_month:
  assumes "a < 10" "e < 10" "1 \<le> 10 * a + e" "10 * a + e \<le> 12"
  shows "parseStd stdZeroMonth (digit_char a # digit_char e # rest) year month day =
         Some (year, int (10 * a + e), day, rest, digit_char a # digit_char e # rest, True, [])"
  using assms by (simp add: parseStd_def getnum_2)

lemma parseStd_day:
  assumes "a < 10" "e < 10"
  shows "parseStd stdZeroDay (digit_char a # digit_char e # rest) year month day =
         Some (year, month, int (10 * a + e), rest, digit_char a # digit_char e # rest, True, [])"
  using assms by (simp add: parseStd_def getnum_2)

lemma parse_loop_canonical:
  assumes y: "y1 < 10" "y2 < 10" "y3 < 10" "y4 < 10"
    and m: "m1 < 10" "m2 < 10" "1 \<le> 10 * m1 + m2" "10 * m1 + m2 \<le> 12"
    and d: "d1 < 10" "d2 < 10"
  shows "parse_loop L V ''2006-01-02''
           (digit_char y1 # digit_char y2 # digit_char y3 # digit_char y4 # CHR ''-'' #
            digit_char m1 # digit_char m2 # CHR ''-'' # digit_char d1 # digit_char d2 # [])
           year month day =
         Inr (int (1000 * y1 + 100 * y2 + 10 * y3 + y4), int (10 * m1 + m2), int (10 * d1 + d2), [])"
  apply (subst parse_loop.simps)
  apply (simp only: nextStdChunk_canonical skip_nothing parseStd_year [OF y] prod.case Let_def
      option.case simp_thms if_True if_False list.simps)
  apply (subst parse_loop.simps)
  apply (simp only: nextStdChunk_canonical skip_dash parseStd_month [OF m] prod.case Let_def
      option.case simp_thms if_True if_False list.simps)
  apply (subst parse_loop.simps)
  apply (simp only: nextStdChunk_canonical skip_dash parseStd_day [OF d] prod.case Let_def
      option.case simp_thms if_True if_False list.simps)
  apply (subst parse_loop.simps)
  apply (simp only: nextStdChunk_canonical skip_nothing prod.case Let_def
      option.case simp_thms if_True if_False list.simps)
  done

lemma daysIn_le_31: "1 \<le> m \<Longrightarrow> m \<le> 12 \<Longrightarrow> daysIn m y \<le> 31"
  using month_cases [of m] by (auto simp: daysIn_def daysBefore_def)

lemma Parse_canonical_digits:
  assumes y: "y1 < 10" "y2 < 10" "y3 < 10" "y4 < 10"
    and m: "m1 < 10" "m2 < 10" and d: "d1 < 10" "d2 < 10"
    and valid: "valid_date \<lparr>Year = int (1000 * y1 + 100 * y2 + 10 * y3 + y4),
                            Month = int (10 * m1 + m2), Day = int (10 * d1 + d2)\<rparr>"
  shows "Parse time_Parse ''2006-01-02''
           (digit_char y1 # digit_char y2 # digit_char y3 # digit_char y4 # CHR ''-'' #
            digit_char m1 # digit_char m2 # CHR ''-'' # digit_char d1 # digit_char d2 # []) =
         (\<lparr>Year = int (1000 * y1 + 100 * y2 + 10 * y3 + y4),
           Month = int (10 * m1 + m2), Day = int (10 * d1 + d2)\<rparr>, None)"
proof -
  define Y where "Y = int (1000 * y1 + 100 * y2 + 10 * y3 + y4)"
  define M where "M = int (10 * m1 + m2)"
  define D where "D = int (10 * d1 + d2)"
  from valid have M: "1 \<le> M" "M \<le> 12" and D: "1 \<le> D" "D \<le> daysIn M Y"
    by (simp_all only: valid_date_def Date.simps Y_def M_def D_def)
  from M have m12: "1 \<le> 10 * m1 + m2" "10 * m1 + m2 \<le> 12"
    by (simp_all add: M_def)
  have loop: "parse_loop L V ''2006-01-02''
           (digit_char y1 # digit_char y2 # digit_char y3 # digit_char y4 # CHR ''-'' #
            digit_char m1 # digit_char m2 # CHR ''-'' # digit_char d1 # digit_char d2 # [])
           0 (- 1) (- 1) = Inr (Y, M, D, [])" for L V
    unfolding Y_def M_def D_def by (rule parse_loop_canonical [OF y m m12 d])
  have parsed: "time_Parse ''2006-01-02''
           (digit_char y1 # digit_char y2 # digit_char y3 # digit_char y4 # CHR ''-'' #
            digit_char m1 # digit_char m2 # CHR ''-'' # digit_char d1 # digit_char d2 # []) =
         Inr (time_Date Y M D 0 0 0 0)"
    unfolding time_Parse_def loop using M D by simp
  have "Of (time_Date Y M D 0 0 0 0) = \<lparr>Year = Y, Month = M, Day = D\<rparr>"
    by (simp add: Of_def time_Year_def time_Month_def time_Day_def
        time_date_time_Date [OF M D])
  then show ?thesis
    unfolding Y_def [symmetric] M_def [symmetric] D_def [symmetric]
    by (simp add: Parse_def parsed)
qed

text \<open>
  Claim C2, as stated: for every Date, with no condition on its fields, \<^verbatim>\<open>Parse\<close> with
  the layout \<^verbatim>\<open>2006-01-02\<close> reads \<^verbatim>\<open>String\<close> back. It does not for a Date that is not a
  day of the calendar: \<^verbatim>\<open>Date{2017, 13, 1}\<close> prints as \<^verbatim>\<open>2017-13-01\<close>, which
  \<^verbatim>\<open>time.Parse\<close> rejects, the month being out of range.
\<close>

theorem Parse_String_month_13_fails:
  "String \<lparr>Year = 2017, Month = 13, Day = 1\<rparr> = ''2017-13-01''
   \<and> Parse time_Parse ''2006-01-02'' (String \<lparr>Year = 2017, Month = 13, Day = 1\<rparr>) =
     (\<lparr>Year = 0, Month = 0, Day = 0\<rparr>,
      Some (ParseError ''2006-01-02'' ''2017-13-01'' ''01'' ''-01'' (OutOfRange ''month'')))"
  by code_simp

text \<open>
  Claim C2, amended. For every Date that is a day of the calendar (month from 1 to 12, day
  from 1 to the length of the month in that year) with a year from 1000 to 9999,
  \<^verbatim>\<open>Parse\<close> with the layout \<^verbatim>\<open>2006-01-02\<close> succeeds on \<^verbatim>\<open>String\<close> of the Date and
  yields the Date.
\<close>

theorem Parse_String_round_trip:
  assumes year: "1000 \<le> Year d" "Year d \<le> 9999" and valid: "valid_date d"
  shows "Parse time_Parse ''2006-01-02'' (String d) = (d, None)"
proof -
  from valid have month: "1 \<le> Month d" "Month d \<le> 12"
    and day: "1 \<le> Day d" "Day d \<le> daysIn (Month d) (Year d)"
    by (simp_all add: valid_date_def)
  have day31: "Day d \<le> 31"
    using day(2) daysIn_le_31 [OF month, of "Year d"] by linarith
  obtain y1 y2 y3 y4 where
    Y: "nat (Year d) = 1000 * y1 + 100 * y2 + 10 * y3 + y4"
    and y: "0 < y1" "y1 < 10" "y2 < 10" "y3 < 10" "y4 < 10"
    using year by (auto intro: digits_4 [of "nat (Year d)"])
  obtain m1 m2 where M: "nat (Month d) = 10 * m1 + m2" and m: "m1 < 10" "m2 < 10"
    using month by (auto intro: digits_2 [of "nat (Month d)"])
  obtain d1 d2 where D: "nat (Day d) = 10 * d1 + d2" and dd: "d1 < 10" "d2 < 10"
    using day31 by (auto intro: digits_2 [of "nat (Day d)"])
  have fields: "Year d = int (1000 * y1 + 100 * y2 + 10 * y3 + y4)"
    "Month d = int (10 * m1 + m2)" "Day d = int (10 * d1 + d2)"
    using year month day Y M D by linarith+
  have d_eq: "d = \<lparr>Year = int (1000 * y1 + 100 * y2 + 10 * y3 + y4),
                   Month = int (10 * m1 + m2), Day = int (10 * d1 + d2)\<rparr>"
    using fields by simp
  have printed: "String d =
      digit_char y1 # digit_char y2 # digit_char y3 # digit_char y4 # CHR ''-'' #
      digit_char m1 # digit_char m2 # CHR ''-'' # digit_char d1 # digit_char d2 # []"
    unfolding String_def fields
    by (simp only: fmtInteger_year [OF y] fmtInteger_two [OF m] fmtInteger_two [OF dd]) simp
  from valid have "valid_date \<lparr>Year = int (1000 * y1 + 100 * y2 + 10 * y3 + y4),
                   Month = int (10 * m1 + m2), Day = int (10 * d1 + d2)\<rparr>"
    by (simp only: d_eq [symmetric])
  from Parse_canonical_digits [OF y(2-5) m dd this] show ?thesis
    by (simp only: printed d_eq [symmetric])
qed

theorem Parse_String_round_trip_witness:
  "valid_date \<lparr>Year = 2001, Month = 3, Day = 5\<rparr>
   \<and> String \<lparr>Year = 2001, Month = 3, Day = 5\<rparr> = ''2001-03-05''
   \<and> Parse time_Parse ''2006-01-02'' ''2001-03-05'' = (\<lparr>Year = 2001, Month = 3, Day = 5\<rparr>, None)"
proof -
  have valid: "valid_date \<lparr>Year = 2001, Month = 3, Day = 5\<rparr>"
    by code_simp
  have printed: "String \<lparr>Year = 2001, Month = 3, Day = 5\<rparr> = ''2001-03-05''"
    by code_simp
  from valid printed Parse_String_round_trip [of "\<lparr>Year = 2001, Month = 3, Day = 5\<rparr>"]
  show ?thesis
    by simp
qed

end
